theory Spec2Isabelle
  imports Complex_Main "HOL-Library.Char_ord" "HOL-Library.List_Lexorder"
begin

section \<open>Signal catalog\<close>

text \<open>Source: \<^verbatim>\<open>include/vital_sync_types.h\<close>.\<close>

text \<open>
  The enumerations \<open>WaveformType\<close> and \<open>ParameterType\<close> are C++ scoped enumerations over
  \<open>int\<close>.  The routing layer produces their values with \<open>static_cast\<close> from a loop counter,
  so a value is modelled by its underlying integer; the named enumerators are the
  integers the header assigns to them.  Every \<open>switch\<close> of the header has a
  \<open>default\<close> branch, which is the last \<open>else\<close> of the corresponding function here.
  \<open>float\<close> and \<open>double\<close> quantities are modelled by the real numbers they denote;
  the properties proved below depend on comparisons and on exact small integers only.
\<close>

type_synonym WaveformType = int
type_synonym ParameterType = int

definition ECG_I :: WaveformType where "ECG_I = 0"
definition ECG_II :: WaveformType where "ECG_II = 1"
definition ECG_III :: WaveformType where "ECG_III = 2"
definition RESP :: WaveformType where "RESP = 3"
definition PLETH :: WaveformType where "PLETH = 4"
definition ABP :: WaveformType where "ABP = 5"
definition CVP :: WaveformType where "CVP = 6"
definition CAPNO :: WaveformType where "CAPNO = 7"
definition EEG :: WaveformType where "EEG = 8"

definition HR :: ParameterType where "HR = 0"
definition RR :: ParameterType where "RR = 1"
definition SPO2 :: ParameterType where "SPO2 = 2"
definition NIBP_SYS :: ParameterType where "NIBP_SYS = 3"
definition NIBP_DIA :: ParameterType where "NIBP_DIA = 4"
definition NIBP_MAP :: ParameterType where "NIBP_MAP = 5"
definition TEMP1 :: ParameterType where "TEMP1 = 6"
definition TEMP2 :: ParameterType where "TEMP2 = 7"
definition ETCO2 :: ParameterType where "ETCO2 = 8"
definition IBP1_SYS :: ParameterType where "IBP1_SYS = 9"
definition IBP1_DIA :: ParameterType where "IBP1_DIA = 10"
definition IBP1_MAP :: ParameterType where "IBP1_MAP = 11"
definition IBP2_SYS :: ParameterType where "IBP2_SYS = 12"
definition IBP2_DIA :: ParameterType where "IBP2_DIA = 13"
definition IBP2_MAP :: ParameterType where "IBP2_MAP = 14"

text \<open>The closed enumerations: the identifiers that have an enumerator.\<close>

definition waveform_catalog :: "WaveformType list" where
  "waveform_catalog = [ECG_I, ECG_II, ECG_III, RESP, PLETH, ABP, CVP, CAPNO, EEG]"

definition parameter_catalog :: "ParameterType list" where
  "parameter_catalog =
     [HR, RR, SPO2, NIBP_SYS, NIBP_DIA, NIBP_MAP, TEMP1, TEMP2, ETCO2,
      IBP1_SYS, IBP1_DIA, IBP1_MAP, IBP2_SYS, IBP2_DIA, IBP2_MAP]"

definition GetDefaultWaveformRange :: "WaveformType \<Rightarrow> real \<times> real" where
  "GetDefaultWaveformRange t =
     (if t = ECG_I \<or> t = ECG_II \<or> t = ECG_III then (- 3 / 2, 3 / 2)
      else if t = RESP then (- 1, 1)
      else if t = PLETH then (0, 1)
      else if t = ABP \<or> t = CVP then (0, 2)
      else if t = CAPNO then (0, 1)
      else if t = EEG then (- 50, 50)
      else (- 1, 1))"

definition GetDefaultParameterRange :: "ParameterType \<Rightarrow> real \<times> real" where
  "GetDefaultParameterRange t =
     (if t = HR then (30, 240)
      else if t = RR then (4, 40)
      else if t = SPO2 then (70, 100)
      else if t = NIBP_SYS \<or> t = IBP1_SYS \<or> t = IBP2_SYS then (60, 240)
      else if t = NIBP_DIA \<or> t = IBP1_DIA \<or> t = IBP2_DIA then (30, 140)
      else if t = NIBP_MAP \<or> t = IBP1_MAP \<or> t = IBP2_MAP then (40, 160)
      else if t = TEMP1 \<or> t = TEMP2 then (30, 42)
      else if t = ETCO2 then (0, 100)
      else (0, 100))"

text \<open>The tuple is (low critical, low warning, high warning, high critical).\<close>

definition GetDefaultAlarmLimits :: "ParameterType \<Rightarrow> real \<times> real \<times> real \<times> real" where
  "GetDefaultAlarmLimits t =
     (if t = HR then (40, 50, 120, 150)
      else if t = RR then (6, 8, 25, 30)
      else if t = SPO2 then (85, 90, 100, 100)
      else if t = NIBP_SYS \<or> t = IBP1_SYS then (80, 90, 160, 180)
      else if t = NIBP_DIA \<or> t = IBP1_DIA then (40, 50, 90, 110)
      else if t = NIBP_MAP \<or> t = IBP1_MAP then (50, 60, 110, 130)
      else if t = IBP2_SYS then (0, 2, 15, 20)
      else if t = IBP2_DIA then (0, 0, 8, 12)
      else if t = IBP2_MAP then (0, 1, 10, 15)
      else if t = TEMP1 \<or> t = TEMP2 then (35, 36, 38, 39)
      else if t = ETCO2 then (20, 25, 45, 50)
      else (0, 0, 100, 100))"

definition DEFAULT_SAMPLE_RATE :: int where "DEFAULT_SAMPLE_RATE = 250"
definition DEFAULT_BUFFER_SECONDS :: int where "DEFAULT_BUFFER_SECONDS = 10"

text \<open>A \<open>QColor\<close> given by its red, green and blue components.\<close>

type_synonym QColor = "nat \<times> nat \<times> nat"


section \<open>Parameter model\<close>

text \<open>Source: \<^verbatim>\<open>src/core/parameter_model.cpp\<close>.\<close>

text \<open>
  The members of \<open>ParameterModel\<close> keep their names with the prefix \<open>pm_\<close> in place of
  the trailing underscore.  A \<open>QDateTime\<close> is its number of milliseconds since the
  epoch.  The stored configuration of a parameter (a \<open>QVariantMap\<close>) is a record of
  optional entries, one per key the constructor looks up; the map is empty when no entry
  is present.
\<close>

datatype AlarmState = Normal | HighWarning | HighCritical | LowWarning | LowCritical | Technical

record ParameterModel =
  pm_parameter_type :: ParameterType
  pm_value :: real
  pm_timestamp :: int
  pm_color :: QColor
  pm_min_value :: real
  pm_max_value :: real
  pm_alarm_state :: AlarmState
  pm_low_critical :: real
  pm_low_warning :: real
  pm_high_warning :: real
  pm_high_critical :: real
  pm_active :: bool

record ParameterConfig =
  pc_active :: "bool option"
  pc_color :: "QColor option"
  pc_minValue :: "real option"
  pc_maxValue :: "real option"
  pc_lowCritical :: "real option"
  pc_lowWarning :: "real option"
  pc_highWarning :: "real option"
  pc_highCritical :: "real option"

definition empty_ParameterConfig :: ParameterConfig where
  "empty_ParameterConfig =
     \<lparr>pc_active = None, pc_color = None, pc_minValue = None, pc_maxValue = None,
      pc_lowCritical = None, pc_lowWarning = None, pc_highWarning = None,
      pc_highCritical = None\<rparr>"

definition or_default :: "'a option \<Rightarrow> 'a \<Rightarrow> 'a" where
  "or_default v d = (case v of None \<Rightarrow> d | Some x \<Rightarrow> x)"

text \<open>
  The constructor: defaults from the catalog, yellow, inactive, value 0, severity Normal,
  the current time \<open>now\<close>; then each stored entry that is present overrides its member.
\<close>

definition new_ParameterModel :: "int \<Rightarrow> ParameterConfig \<Rightarrow> ParameterType \<Rightarrow> ParameterModel" where
  "new_ParameterModel now paramConfig parameterType =
     (let range = GetDefaultParameterRange parameterType;
          limits = GetDefaultAlarmLimits parameterType
      in \<lparr>pm_parameter_type = parameterType,
          pm_value = 0,
          pm_timestamp = now,
          pm_color = or_default (pc_color paramConfig) (255, 255, 0),
          pm_min_value = or_default (pc_minValue paramConfig) (fst range),
          pm_max_value = or_default (pc_maxValue paramConfig) (snd range),
          pm_alarm_state = Normal,
          pm_low_critical = or_default (pc_lowCritical paramConfig) (fst limits),
          pm_low_warning = or_default (pc_lowWarning paramConfig) (fst (snd limits)),
          pm_high_warning = or_default (pc_highWarning paramConfig) (fst (snd (snd limits))),
          pm_high_critical = or_default (pc_highCritical paramConfig) (snd (snd (snd limits))),
          pm_active = or_default (pc_active paramConfig) False\<rparr>)"

text \<open>The signals a parameter model emits, in the order of emission.\<close>

datatype pm_signal =
  propertiesChanged | alarmStateChanged AlarmState | activeStateChanged bool

text \<open>
  \<open>UpdateValue\<close>: the chain of comparisons of the source, high thresholds first and
  strict; the timestamp is taken from the clock when the given one is not positive;
  \<open>propertiesChanged\<close> is emitted when the value or the severity changed.
\<close>

definition UpdateValue :: "int \<Rightarrow> int \<Rightarrow> real \<Rightarrow> ParameterModel \<Rightarrow> ParameterModel \<times> pm_signal list" where
  "UpdateValue now timestamp new_value m =
     (let old_value = pm_value m;
          old_alarm_state = pm_alarm_state m;
          alarm_state =
            (if new_value > pm_high_critical m then HighCritical
             else if new_value > pm_high_warning m then HighWarning
             else if new_value < pm_low_critical m then LowCritical
             else if new_value < pm_low_warning m then LowWarning
             else Normal);
          m' = m\<lparr>pm_alarm_state := alarm_state,
                 pm_value := new_value,
                 pm_timestamp := (if timestamp > 0 then timestamp else now)\<rparr>;
          value_changed = (old_value \<noteq> pm_value m');
          alarm_changed = (old_alarm_state \<noteq> pm_alarm_state m')
      in (m', if value_changed \<or> alarm_changed then [propertiesChanged] else []))"

text \<open>
  \<open>UpdateAlarmState\<close>: the private re-evaluation used by \<open>SetAlarmLimits\<close>; low
  thresholds first and non-strict comparisons.
\<close>

definition UpdateAlarmState :: "ParameterModel \<Rightarrow> ParameterModel" where
  "UpdateAlarmState m =
     (let newState =
            (if pm_value m \<le> pm_low_critical m then LowCritical
             else if pm_value m \<le> pm_low_warning m then LowWarning
             else if pm_value m \<ge> pm_high_critical m then HighCritical
             else if pm_value m \<ge> pm_high_warning m then HighWarning
             else Normal)
      in m\<lparr>pm_alarm_state := newState\<rparr>)"

definition SetAlarmLimits :: "real \<Rightarrow> real \<Rightarrow> real \<Rightarrow> real \<Rightarrow> ParameterModel \<Rightarrow> ParameterModel \<times> pm_signal list" where
  "SetAlarmLimits lowCritical lowWarning highWarning highCritical m =
     (let oldState = pm_alarm_state m;
          m' = UpdateAlarmState
                 (m\<lparr>pm_low_critical := lowCritical, pm_low_warning := lowWarning,
                    pm_high_warning := highWarning, pm_high_critical := highCritical\<rparr>)
      in (m', propertiesChanged #
              (if oldState \<noteq> pm_alarm_state m' then [alarmStateChanged (pm_alarm_state m')]
               else [])))"

definition pm_SetActive :: "bool \<Rightarrow> ParameterModel \<Rightarrow> ParameterModel \<times> pm_signal list" where
  "pm_SetActive active m =
     (if pm_active m = active then (m, [])
      else (m\<lparr>pm_active := active\<rparr>, [activeStateChanged active, propertiesChanged]))"

definition GetAlarmState :: "ParameterModel \<Rightarrow> AlarmState" where
  "GetAlarmState m = pm_alarm_state m"

text \<open>
  The severity rule as the specification words it, for comparison with \<open>UpdateValue\<close>:
  a function of the value and the four thresholds (low critical, low warning, high
  warning, high critical).
\<close>

fun spec_severity :: "real \<Rightarrow> real \<Rightarrow> real \<Rightarrow> real \<Rightarrow> real \<Rightarrow> AlarmState" where
  "spec_severity lowCritical lowWarning highWarning highCritical v =
     (if v > highCritical then HighCritical
      else if v > highWarning then HighWarning
      else if v < lowCritical then LowCritical
      else if v < lowWarning then LowWarning
      else Normal)"

text \<open>The four thresholds of a model, as a tuple.\<close>

definition thresholds :: "ParameterModel \<Rightarrow> real \<times> real \<times> real \<times> real" where
  "thresholds m = (pm_low_critical m, pm_low_warning m, pm_high_warning m, pm_high_critical m)"

section \<open>Waveform buffer model\<close>

text \<open>Source: \<^verbatim>\<open>src/core/waveform_model.cpp\<close>.\<close>

text \<open>
  The members of \<open>WaveformModel\<close> carry the prefix \<open>wm_\<close>.  \<open>data_\<close> is a
  \<open>QVector<float>\<close>, a list of samples; the timestamps are \<open>qint64\<close> values that are
  only compared and stored.  Sizes are the non-negative \<open>int\<close> values \<open>size()\<close> returns.
\<close>

definition DEFAULT_BUFFER_SIZE :: int where "DEFAULT_BUFFER_SIZE = 1000"

record WaveformModel =
  wm_waveform_type :: WaveformType
  wm_display_name :: string
  wm_color :: QColor
  wm_min_value :: real
  wm_max_value :: real
  wm_data :: "real list"
  wm_max_buffer_size :: int
  wm_active :: bool
  wm_is_demo :: bool
  wm_last_update_timestamp :: int
  wm_last_timestamp :: int

record WaveformConfig =
  wc_active :: "bool option"
  wc_color :: "QColor option"
  wc_minValue :: "real option"
  wc_maxValue :: "real option"
  wc_bufferSize :: "int option"

definition empty_WaveformConfig :: WaveformConfig where
  "empty_WaveformConfig =
     \<lparr>wc_active = None, wc_color = None, wc_minValue = None, wc_maxValue = None,
      wc_bufferSize = None\<rparr>"

definition GetWaveformDisplayName :: "WaveformType \<Rightarrow> string" where
  "GetWaveformDisplayName t =
     (if t = ECG_I then ''ECG I''
      else if t = ECG_II then ''ECG II''
      else if t = ECG_III then ''ECG III''
      else if t = RESP then ''Resp''
      else if t = PLETH then ''SpO2''
      else if t = ABP then ''ABP''
      else if t = CVP then ''CVP''
      else if t = CAPNO then ''ETCO2''
      else if t = EEG then ''EEG''
      else ''Unknown'')"

definition default_waveform_color :: "WaveformType \<Rightarrow> QColor" where
  "default_waveform_color t =
     (if t = ECG_I \<or> t = ECG_II \<or> t = ECG_III then (0, 255, 0)
      else if t = RESP then (255, 255, 0)
      else if t = PLETH then (0, 255, 255)
      else if t = ABP then (255, 0, 0)
      else if t = CAPNO then (255, 255, 255)
      else (255, 255, 255))"

text \<open>
  \<open>QVector::resize\<close> to a non-negative size: the vector is cut, or padded with
  default-constructed samples (zero).
\<close>

definition resize :: "int \<Rightarrow> real list \<Rightarrow> real list" where
  "resize n xs = take (nat n) xs @ replicate (nat n - length xs) 0"

text \<open>
  The seeding loop of the constructor,
  \<^verbatim>\<open>for (i = 0; i < max_buffer_size_; ++i) data_[i] = 0.5f * sinf(phase)\<close> with
  \<open>phase = i / max_buffer_size_ * 2 * pi\<close>: one indexed store per iteration.
\<close>

definition seed_sample :: "int \<Rightarrow> nat \<Rightarrow> real" where
  "seed_sample n i = (1 / 2) * sin (real i / real_of_int n * 2 * pi)"

definition seed_loop :: "int \<Rightarrow> real list \<Rightarrow> real list" where
  "seed_loop n d = fold (\<lambda>i d. d[i := seed_sample n i]) [0..<nat n] d"

definition new_WaveformModel :: "WaveformConfig \<Rightarrow> WaveformType \<Rightarrow> WaveformModel" where
  "new_WaveformModel waveformConfig waveformType =
     (let max_buffer_size = DEFAULT_BUFFER_SIZE;
          range = GetDefaultWaveformRange waveformType;
          data = seed_loop max_buffer_size (resize max_buffer_size [])
      in \<lparr>wm_waveform_type = waveformType,
          wm_display_name = GetWaveformDisplayName waveformType,
          wm_color = or_default (wc_color waveformConfig) (default_waveform_color waveformType),
          wm_min_value = or_default (wc_minValue waveformConfig) (fst range),
          wm_max_value = or_default (wc_maxValue waveformConfig) (snd range),
          wm_data = (case wc_bufferSize waveformConfig of
                       None \<Rightarrow> data | Some n \<Rightarrow> resize n data),
          wm_max_buffer_size = or_default (wc_bufferSize waveformConfig) max_buffer_size,
          wm_active = or_default (wc_active waveformConfig) True,
          wm_is_demo = True,
          wm_last_update_timestamp = 0,
          wm_last_timestamp = 0\<rparr>)"

datatype wm_signal = dataUpdated | wm_propertiesChanged | wm_activeStateChanged bool

definition GetData :: "WaveformModel \<Rightarrow> real list" where
  "GetData m = wm_data m"

definition SetMaxBufferSize :: "int \<Rightarrow> WaveformModel \<Rightarrow> WaveformModel \<times> wm_signal list" where
  "SetMaxBufferSize n m =
     (if wm_max_buffer_size m = n then (m, [])
      else (m\<lparr>wm_max_buffer_size := n, wm_data := resize n (wm_data m)\<rparr>,
            [wm_propertiesChanged]))"

text \<open>\<open>QVector::mid(pos)\<close>: the elements from position \<open>pos\<close> to the end.\<close>

definition mid :: "nat \<Rightarrow> real list \<Rightarrow> real list" where
  "mid pos xs = drop pos xs"

text \<open>
  The two loops of \<open>addWaveformData\<close>, each one indexed store per iteration:
  \<^verbatim>\<open>for (i = 0; i < bufferSize - numToAdd; ++i) data_[i] = data_[i + numToAdd];\<close>
  \<^verbatim>\<open>for (i = 0; i < numToAdd; ++i) data_[bufferSize - numToAdd + i] = data[i];\<close>
\<close>

definition shift_loop :: "nat \<Rightarrow> nat \<Rightarrow> real list \<Rightarrow> real list" where
  "shift_loop bufferSize numToAdd d =
     fold (\<lambda>i d. d[i := d ! (i + numToAdd)]) [0..<bufferSize - numToAdd] d"

definition append_loop :: "nat \<Rightarrow> nat \<Rightarrow> real list \<Rightarrow> real list \<Rightarrow> real list" where
  "append_loop bufferSize numToAdd data d =
     fold (\<lambda>i d. d[bufferSize - numToAdd + i := data ! i]) [0..<numToAdd] d"

text \<open>
  \<open>addWaveformData\<close>.  The call returns early, with no signal, on an empty batch, on an
  inactive model, and on a timestamp that is not greater than the last accepted one
  while that one is not 0.  Otherwise it stores the timestamp, updates the buffer and
  emits \<open>dataUpdated\<close>.
\<close>

definition addWaveformData :: "int \<Rightarrow> real list \<Rightarrow> WaveformModel \<Rightarrow> WaveformModel \<times> wm_signal list" where
  "addWaveformData timestamp data m =
     (if data = [] \<or> \<not> wm_active m then (m, [])
      else if timestamp \<le> wm_last_timestamp m \<and> wm_last_timestamp m \<noteq> 0 then (m, [])
      else
        (let numToAdd = length data;
             bufferSize = length (wm_data m);
             data' =
               (if numToAdd \<ge> bufferSize then mid (length data - bufferSize) data
                else append_loop bufferSize numToAdd data
                       (shift_loop bufferSize numToAdd (wm_data m)))
         in (m\<lparr>wm_last_timestamp := timestamp, wm_data := data'\<rparr>, [dataUpdated])))"

text \<open>
  The precondition of the out-of-order rejection as the specification words it: the
  timestamp is not greater than the last accepted one.
\<close>

definition out_of_order :: "int \<Rightarrow> WaveformModel \<Rightarrow> bool" where
  "out_of_order timestamp m = (timestamp \<le> wm_last_timestamp m)"

section \<open>Configuration collaborator\<close>

text \<open>Source: \<^verbatim>\<open>src/core/config_manager.cpp\<close>.\<close>

text \<open>
  The part of \<open>ConfigManager\<close> the core calls: the last-used provider (the settings value
  under the key \<open>lastProvider\<close>, absent until first set) and the three caches of
  configurations.  A stored provider configuration is a record of the converted values of
  the keys \<open>configure\<close> recognises, with the list of any other keys it holds.  The
  signals of the collaborator are not modelled.
\<close>

record ProviderConfig =
  cfg_heartRate :: "int option"
  cfg_respirationRate :: "int option"
  cfg_spo2 :: "int option"
  cfg_systolicBP :: "int option"
  cfg_diastolicBP :: "int option"
  cfg_temperature :: "real option"
  cfg_temperature2 :: "real option"
  cfg_etco2 :: "int option"
  cfg_ibp1Systolic :: "int option"
  cfg_ibp1Diastolic :: "int option"
  cfg_ibp2Systolic :: "int option"
  cfg_ibp2Diastolic :: "int option"
  cfg_UpdateInterval :: "int option"
  cfg_amplitude :: "real option"
  cfg_frequency :: "real option"
  cfg_noise :: "real option"
  cfg_artifacts :: "bool option"
  cfg_other_keys :: "string list"

definition empty_ProviderConfig :: ProviderConfig where
  "empty_ProviderConfig =
     \<lparr>cfg_heartRate = None, cfg_respirationRate = None, cfg_spo2 = None,
      cfg_systolicBP = None, cfg_diastolicBP = None, cfg_temperature = None,
      cfg_temperature2 = None, cfg_etco2 = None, cfg_ibp1Systolic = None,
      cfg_ibp1Diastolic = None, cfg_ibp2Systolic = None, cfg_ibp2Diastolic = None,
      cfg_UpdateInterval = None, cfg_amplitude = None, cfg_frequency = None,
      cfg_noise = None, cfg_artifacts = None, cfg_other_keys = []\<rparr>"

record ConfigManager =
  cm_lastProvider :: "string option"
  cm_provider_configs :: "string \<rightharpoonup> ProviderConfig"
  cm_waveform_configs :: "int \<rightharpoonup> WaveformConfig"
  cm_parameter_configs :: "int \<rightharpoonup> ParameterConfig"
  cm_dirty :: bool

definition DEFAULT_PROVIDER :: string where "DEFAULT_PROVIDER = ''Demo''"

definition new_ConfigManager :: ConfigManager where
  "new_ConfigManager =
     \<lparr>cm_lastProvider = None, cm_provider_configs = Map.empty,
      cm_waveform_configs = Map.empty, cm_parameter_configs = Map.empty,
      cm_dirty = False\<rparr>"

definition GetLastProvider :: "ConfigManager \<Rightarrow> string" where
  "GetLastProvider cm = or_default (cm_lastProvider cm) DEFAULT_PROVIDER"

text \<open>
  \<open>SetLastProvider\<close> is \<open>SetString\<close> on the key: the value is written when it differs
  from the stored one (an absent key reads as the empty string).
\<close>

definition SetLastProvider :: "string \<Rightarrow> ConfigManager \<Rightarrow> ConfigManager" where
  "SetLastProvider providerName cm =
     (if or_default (cm_lastProvider cm) [] \<noteq> providerName
      then cm\<lparr>cm_lastProvider := Some providerName, cm_dirty := True\<rparr>
      else cm)"

definition GetProviderConfig :: "ConfigManager \<Rightarrow> string \<Rightarrow> ProviderConfig" where
  "GetProviderConfig cm providerName =
     or_default (cm_provider_configs cm providerName) empty_ProviderConfig"

definition SetProviderConfig :: "string \<Rightarrow> ProviderConfig \<Rightarrow> ConfigManager \<Rightarrow> ConfigManager" where
  "SetProviderConfig providerName config cm =
     cm\<lparr>cm_provider_configs := (cm_provider_configs cm)(providerName \<mapsto> config),
        cm_dirty := True\<rparr>"

definition GetWaveformConfig :: "ConfigManager \<Rightarrow> WaveformType \<Rightarrow> WaveformConfig" where
  "GetWaveformConfig cm waveformType =
     or_default (cm_waveform_configs cm waveformType) empty_WaveformConfig"

definition GetParameterConfig :: "ConfigManager \<Rightarrow> ParameterType \<Rightarrow> ParameterConfig" where
  "GetParameterConfig cm parameterType =
     or_default (cm_parameter_configs cm parameterType) empty_ParameterConfig"


section \<open>Synthetic generator\<close>

text \<open>Source: \<^verbatim>\<open>src/providers/demo_data_provider.cpp\<close>.\<close>

subsection \<open>Random numbers, rounding, exceptions\<close>

text \<open>
  \<open>QRandomGenerator\<close> is Qt's.  Its future outputs are an arbitrary sequence of draws
  \<open>u\<^sub>0, u\<^sub>1, \<dots>\<close> with a read position: \<open>generateDouble()\<close> returns the next draw and
  \<open>bounded(n)\<close> the integer part of the next draw times \<open>n\<close>.  Every sequence of results
  of the real generator is produced by some sequence of draws.  The real generator
  draws from the half-open unit interval, which is what \<open>generator_draws\<close> says; only
  the bounds on the synthesised integers assume it.
\<close>

record rng =
  rng_draws :: "nat \<Rightarrow> real"
  rng_pos :: nat

definition generateDouble :: "rng \<Rightarrow> real \<times> rng" where
  "generateDouble r = (rng_draws r (rng_pos r), r\<lparr>rng_pos := Suc (rng_pos r)\<rparr>)"

definition bounded :: "int \<Rightarrow> rng \<Rightarrow> int \<times> rng" where
  "bounded highest r =
     (\<lfloor>rng_draws r (rng_pos r) * real_of_int highest\<rfloor>, r\<lparr>rng_pos := Suc (rng_pos r)\<rparr>)"

definition generator_draws :: "rng \<Rightarrow> bool" where
  "generator_draws r = (\<forall>k. 0 \<le> rng_draws r k \<and> rng_draws r k < 1)"

text \<open>
  \<open>qRound\<close> is Qt's rounding of a \<open>double\<close> to the nearest \<open>int\<close>:
  \<^verbatim>\<open>d >= 0.0 ? int(d + 0.5) : int(d - 0.5)\<close>, the conversion truncating towards zero
  (older versions of Qt round a negative half-integer up instead of down; no property
  below rests on the rounding of a half-integer).
  The values of \<open>int\<close> variables are mathematical integers, and a \<open>double\<close> or a
  \<open>float\<close> is the real it denotes.  The code agrees with this as long as no \<open>int\<close>
  operation leaves the 32 bits (signed overflow and the conversion of a \<open>double\<close> out of
  the range of \<open>int\<close> have no defined result to model) and as long as an \<open>int\<close> that
  is converted to \<open>float\<close> lies within \<open>\<plusminus>2\<^sup>2\<^sup>4\<close>, where the conversion is exact.
  A baseline comes from \<open>QVariant::toInt\<close> and can be any 32-bit value, so a property
  that rests on the exact value of an emitted integer carries the hypothesis
  \<open>baselines_in_range\<close> below.
\<close>

definition qRound :: "real \<Rightarrow> int" where
  "qRound d = (if d \<ge> 0 then \<lfloor>d + 0.5\<rfloor> else \<lceil>d - 0.5\<rceil>)"

text \<open>
  A C++ exception in flight: one derived from \<open>std::exception\<close>, with its \<open>what()\<close>,
  or any other object.
\<close>

datatype exn = std_exception string | other_exception

datatype ConnectionStatus = Disconnected | Connecting | Connected | Error

datatype dp_signal =
  waveformDataReceived int int "real list"
  | parameterDataReceived int int real
  | connectionStatusChanged ConnectionStatus
  | errorOccurred int string

text \<open>
  The slots connected to the provider's signals run inside the \<open>emit\<close> statement (a direct
  connection): \<open>slots s\<close> is the exception a slot raises on the signal \<open>s\<close>, if any.
  Emitting a list of signals in order stops at the first exception.
\<close>

type_synonym slots = "dp_signal \<Rightarrow> exn option"

fun emit_all :: "slots \<Rightarrow> dp_signal list \<Rightarrow> dp_signal list \<times> exn option" where
  "emit_all slots [] = ([], None)"
| "emit_all slots (s # ss) =
     (case slots s of
        Some e \<Rightarrow> ([s], Some e)
      | None \<Rightarrow> (let (emitted, x) = emit_all slots ss in (s # emitted, x)))"

definition no_slots :: slots where
  "no_slots s = None"


subsection \<open>Provider state, configuration, start and stop\<close>

text \<open>
  The members of \<open>DemoDataProvider\<close> carry the prefix \<open>dp_\<close>; the two \<open>QTimer\<close>s are
  their running flags and the interval of the waveform timer.
\<close>

record DemoDataProvider =
  dp_status :: ConnectionStatus
  dp_active :: bool
  dp_waveform_timer_running :: bool
  dp_waveform_timer_interval :: int
  dp_parameter_timer_running :: bool
  dp_cycleCounter :: int
  dp_waveform_update_interval_ms :: int
  dp_parameter_update_interval_ms :: int
  dp_heart_rate :: real
  dp_respiration_rate :: real
  dp_spo2 :: real
  dp_systolic_bp :: real
  dp_diastolic_bp :: real
  dp_mean_bp :: real
  dp_etco2 :: real
  dp_temperature :: real
  dp_temperature2 :: real
  dp_ibp1_systolic :: real
  dp_ibp1_diastolic :: real
  dp_ibp1_mean :: real
  dp_ibp2_systolic :: real
  dp_ibp2_diastolic :: real
  dp_ibp2_mean :: real
  dp_amplitude :: real
  dp_frequency :: real
  dp_noise :: real
  dp_artifacts :: bool
  dp_random :: rng

definition DEFAULT_PARAMETER_UPDATE_MS :: int where "DEFAULT_PARAMETER_UPDATE_MS = 1000"

definition GetName :: "DemoDataProvider \<Rightarrow> string" where
  "GetName p = ''Demo''"

definition isActive :: "DemoDataProvider \<Rightarrow> bool" where
  "isActive p = dp_active p"

text \<open>
  \<open>configure\<close>: each recognised key that is present overwrites its member, the three
  means are recomputed, a running waveform timer takes the new interval, and the merged
  configuration is stored under the name Demo.  It returns true.
\<close>

definition configure :: "ProviderConfig \<Rightarrow> DemoDataProvider \<Rightarrow> ConfigManager \<Rightarrow> bool \<times> DemoDataProvider \<times> ConfigManager" where
  "configure params p cm =
     (let heart_rate = or_default (map_option real_of_int (cfg_heartRate params)) (dp_heart_rate p);
          respiration_rate =
            or_default (map_option real_of_int (cfg_respirationRate params)) (dp_respiration_rate p);
          spo2 = or_default (map_option real_of_int (cfg_spo2 params)) (dp_spo2 p);
          systolic_bp =
            or_default (map_option real_of_int (cfg_systolicBP params)) (dp_systolic_bp p);
          diastolic_bp =
            or_default (map_option real_of_int (cfg_diastolicBP params)) (dp_diastolic_bp p);
          mean_bp = diastolic_bp + (systolic_bp - diastolic_bp) / 3;
          temperature = or_default (cfg_temperature params) (dp_temperature p);
          temperature2 = or_default (cfg_temperature2 params) (dp_temperature2 p);
          etco2 = or_default (map_option real_of_int (cfg_etco2 params)) (dp_etco2 p);
          ibp1_systolic =
            or_default (map_option real_of_int (cfg_ibp1Systolic params)) (dp_ibp1_systolic p);
          ibp1_diastolic =
            or_default (map_option real_of_int (cfg_ibp1Diastolic params)) (dp_ibp1_diastolic p);
          ibp1_mean = ibp1_diastolic + (ibp1_systolic - ibp1_diastolic) / 3;
          ibp2_systolic =
            or_default (map_option real_of_int (cfg_ibp2Systolic params)) (dp_ibp2_systolic p);
          ibp2_diastolic =
            or_default (map_option real_of_int (cfg_ibp2Diastolic params)) (dp_ibp2_diastolic p);
          ibp2_mean = ibp2_diastolic + (ibp2_systolic - ibp2_diastolic) / 3;
          waveform_update_interval_ms =
            or_default (cfg_UpdateInterval params) (dp_waveform_update_interval_ms p);
          amplitude = or_default (cfg_amplitude params) (dp_amplitude p);
          frequency = or_default (cfg_frequency params) (dp_frequency p);
          noise = or_default (cfg_noise params) (dp_noise p);
          artifacts = or_default (cfg_artifacts params) (dp_artifacts p);
          p' = p\<lparr>dp_heart_rate := heart_rate, dp_respiration_rate := respiration_rate,
                 dp_spo2 := spo2, dp_systolic_bp := systolic_bp,
                 dp_diastolic_bp := diastolic_bp, dp_mean_bp := mean_bp,
                 dp_temperature := temperature, dp_temperature2 := temperature2,
                 dp_etco2 := etco2, dp_ibp1_systolic := ibp1_systolic,
                 dp_ibp1_diastolic := ibp1_diastolic, dp_ibp1_mean := ibp1_mean,
                 dp_ibp2_systolic := ibp2_systolic, dp_ibp2_diastolic := ibp2_diastolic,
                 dp_ibp2_mean := ibp2_mean,
                 dp_waveform_update_interval_ms := waveform_update_interval_ms,
                 dp_amplitude := amplitude, dp_frequency := frequency, dp_noise := noise,
                 dp_artifacts := artifacts,
                 dp_waveform_timer_interval :=
                   (if dp_waveform_timer_running p then waveform_update_interval_ms
                    else dp_waveform_timer_interval p)\<rparr>;
          config =
            \<lparr>cfg_heartRate = Some \<lfloor>heart_rate\<rfloor>,
             cfg_respirationRate = Some \<lfloor>respiration_rate\<rfloor>,
             cfg_spo2 = Some \<lfloor>spo2\<rfloor>,
             cfg_systolicBP = Some \<lfloor>systolic_bp\<rfloor>,
             cfg_diastolicBP = Some \<lfloor>diastolic_bp\<rfloor>,
             cfg_temperature = Some temperature,
             cfg_temperature2 = Some temperature2,
             cfg_etco2 = Some \<lfloor>etco2\<rfloor>,
             cfg_ibp1Systolic = Some \<lfloor>ibp1_systolic\<rfloor>,
             cfg_ibp1Diastolic = Some \<lfloor>ibp1_diastolic\<rfloor>,
             cfg_ibp2Systolic = Some \<lfloor>ibp2_systolic\<rfloor>,
             cfg_ibp2Diastolic = Some \<lfloor>ibp2_diastolic\<rfloor>,
             cfg_UpdateInterval = Some waveform_update_interval_ms,
             cfg_amplitude = Some amplitude, cfg_frequency = Some frequency,
             cfg_noise = Some noise, cfg_artifacts = Some artifacts,
             cfg_other_keys = []\<rparr>
      in (True, p', SetProviderConfig ''Demo'' config cm))"

text \<open>
  The constructor: the default baselines, the generator seeded (its draws are the
  argument \<open>r\<close>), and \<open>configure\<close> with the stored configuration when that is not empty.
\<close>

definition new_DemoDataProvider :: "rng \<Rightarrow> ConfigManager \<Rightarrow> DemoDataProvider \<times> ConfigManager" where
  "new_DemoDataProvider r cm =
     (let p = \<lparr>dp_status = Disconnected, dp_active = False,
                dp_waveform_timer_running = False, dp_waveform_timer_interval = 40,
                dp_parameter_timer_running = False, dp_cycleCounter = 0,
                dp_waveform_update_interval_ms = 40,
                dp_parameter_update_interval_ms = DEFAULT_PARAMETER_UPDATE_MS,
                dp_heart_rate = 70, dp_respiration_rate = 15, dp_spo2 = 98,
                dp_systolic_bp = 120, dp_diastolic_bp = 80, dp_mean_bp = 93,
                dp_etco2 = 35, dp_temperature = 37.0, dp_temperature2 = 36.5,
                dp_ibp1_systolic = 125, dp_ibp1_diastolic = 75, dp_ibp1_mean = 92,
                dp_ibp2_systolic = 15, dp_ibp2_diastolic = 5, dp_ibp2_mean = 8,
                dp_amplitude = 1.0, dp_frequency = 1.0, dp_noise = 0.02,
                dp_artifacts = False, dp_random = r\<rparr>;
          providerConfig = GetProviderConfig cm ''Demo''
      in if providerConfig \<noteq> empty_ProviderConfig
         then (let (ok, p', cm') = configure providerConfig p cm in (p', cm'))
         else (p, cm))"

text \<open>
  \<open>start\<close> returns at once; the connection completes in a timer callback 500 ms later
  (\<open>connection_completed\<close>), which starts both timers and marks the provider active and
  connected; the two initial ticks it schedules are ticks like the timers' own.  \<open>stop\<close> marks it inactive and disconnected and, if it was active, stops the
  timers and emits the status.
\<close>

definition start :: "DemoDataProvider \<Rightarrow> bool \<times> DemoDataProvider \<times> dp_signal list" where
  "start p =
     (if dp_active p then (True, p, [])
      else (True, p\<lparr>dp_status := Connecting\<rparr>, [connectionStatusChanged Connecting]))"

definition connection_completed :: "DemoDataProvider \<Rightarrow> DemoDataProvider \<times> dp_signal list" where
  "connection_completed p =
     (p\<lparr>dp_waveform_timer_running := True, dp_parameter_timer_running := True,
        dp_active := True, dp_status := Connected\<rparr>,
      [connectionStatusChanged Connected])"

definition stop :: "DemoDataProvider \<Rightarrow> DemoDataProvider \<times> dp_signal list" where
  "stop p =
     (let was_active = dp_active p;
          p' = p\<lparr>dp_active := False, dp_status := Disconnected\<rparr>
      in if was_active
         then (p'\<lparr>dp_waveform_timer_running := False, dp_parameter_timer_running := False\<rparr>,
               [connectionStatusChanged (dp_status p')])
         else (p', []))"


subsection \<open>Parameter synthesis\<close>

text \<open>
  The helpers draw from the generator only where the source does: the right operand of
  \<open>&&\<close> is evaluated when the left one holds.
\<close>

definition generateExtremeValue :: "real \<Rightarrow> real \<Rightarrow> real \<Rightarrow> int \<Rightarrow> rng \<Rightarrow> real \<times> rng" where
  "generateExtremeValue baseValue minValue maxValue cycleCount r =
     (if cycleCount mod 8 = 0 then
        (let (a, r1) = bounded 100 r in
         if a < 40 then
           (let (b, r2) = bounded 100 r1 in
            if b < 60 then
              (let (c, r3) = bounded 20 r2;
                   exceedFactor = 1.10 + real_of_int c / 100.0
               in (maxValue * exceedFactor, r3))
            else
              (let (c, r3) = bounded 20 r2;
                   exceedFactor = 0.90 - real_of_int c / 100.0
               in (minValue * exceedFactor, r3)))
         else (baseValue, r1))
      else (baseValue, r))"

definition generateCriticalExtremeValue :: "real \<Rightarrow> real \<Rightarrow> real \<Rightarrow> int \<Rightarrow> rng \<Rightarrow> real \<times> rng" where
  "generateCriticalExtremeValue baseValue minValue maxValue cycleCount r =
     (if cycleCount mod 5 = 0 then
        (let (a, r1) = bounded 100 r in
         if a < 60 then
           (let (b, r2) = bounded 100 r1 in
            if b < 70 then
              (let (c, r3) = bounded 25 r2;
                   exceedFactor = 1.15 + real_of_int c / 100.0
               in (maxValue * exceedFactor, r3))
            else
              (let (c, r3) = bounded 25 r2;
                   exceedFactor = 0.85 - real_of_int c / 100.0
               in (minValue * exceedFactor, r3)))
         else (baseValue, r1))
      else (baseValue, r))"

definition addVariation :: "real \<Rightarrow> real \<Rightarrow> rng \<Rightarrow> real \<times> rng" where
  "addVariation base_value variation_pct r =
     (let pct = (if variation_pct < 0.0 \<or> variation_pct > 1.0
                 then max 0.0 (min 1.0 variation_pct) else variation_pct);
          max_variation = base_value * pct;
          (u, r1) = generateDouble r;
          random_factor = u * 2.0 - 1.0;
          variation = random_factor * max_variation
      in (base_value + variation, r1))"

text \<open>
  The body of \<open>generateParameterData\<close> between the increment of the cycle counter and the
  emissions, block by block in the order of the source.  \<open>c\<close> is the incremented cycle
  counter; the baselines are the copies taken under the lock.
\<close>

definition gen_heartRate :: "int \<Rightarrow> real \<Rightarrow> rng \<Rightarrow> int \<times> rng" where
  "gen_heartRate c heart_rate r =
     (let hrFactor = sin (real_of_int c * 0.005) * 3.0;
          hr_base = heart_rate + hrFactor;
          (hr_base, r1) = generateCriticalExtremeValue hr_base 40 150 c r;
          (v, r2) = addVariation hr_base 0.02 r1
      in (qRound v, r2))"

definition gen_respirationRate :: "int \<Rightarrow> real \<Rightarrow> real \<Rightarrow> int \<Rightarrow> rng \<Rightarrow> int \<times> rng" where
  "gen_respirationRate c respiration_rate heart_rate heartRate r =
     (let rrFactor = (if real_of_int heartRate > heart_rate then 0.2 else - 0.2);
          rr_base = respiration_rate + rrFactor;
          (rr_base, r1) = generateExtremeValue rr_base 8 30 (c + 3) r;
          (v, r2) = addVariation rr_base 0.03 r1
      in (qRound v, r2))"

definition gen_spo2 :: "int \<Rightarrow> real \<Rightarrow> real \<Rightarrow> int \<Rightarrow> rng \<Rightarrow> int \<times> rng" where
  "gen_spo2 c spo2_value heart_rate heartRate r =
     (let spo2Factor = (if real_of_int heartRate > heart_rate + 10 then - 0.2 else 0.1);
          spo2_base = spo2_value + spo2Factor;
          (spo2_base, r1) = generateCriticalExtremeValue spo2_base 94 100 (c + 7) r;
          (spo2_base, r2) =
            (if c mod 30 = 0 then
               (let (a, ra) = bounded 100 r1 in
                if a < 25 then (let (b, rb) = bounded 16 ra in (70.0 + real_of_int b, rb))
                else (spo2_base, ra))
             else (spo2_base, r1));
          (v, r3) = addVariation spo2_base 0.01 r2;
          spo2 = qRound v;
          spo2 = min spo2 100
      in (spo2, r3))"

text \<open>The triples are (systolic, diastolic, mean).\<close>

definition gen_nibp :: "int \<Rightarrow> real \<Rightarrow> real \<Rightarrow> real \<Rightarrow> int \<Rightarrow> rng \<Rightarrow> (int \<times> int \<times> int) \<times> rng" where
  "gen_nibp c systolic_bp diastolic_bp heart_rate heartRate r =
     (let sysFactor = (if real_of_int heartRate > heart_rate then 0.5 else - 0.3);
          diaFactor = (if real_of_int heartRate > heart_rate then - 0.3 else 0.2);
          sys_base = systolic_bp + sysFactor;
          dia_base = diastolic_bp + diaFactor;
          (sys_base, r1) = generateCriticalExtremeValue sys_base 90 140 (c + 11) r;
          (dia_base, r2) = generateCriticalExtremeValue dia_base 60 90 (c + 13) r1;
          (vs, r3) = addVariation sys_base 0.03 r2;
          systolicBP = qRound vs;
          (vd, r4) = addVariation dia_base 0.03 r3;
          diastolicBP = qRound vd;
          systolicBP = (if systolicBP \<le> diastolicBP then diastolicBP + 20 else systolicBP);
          meanBP = qRound (real_of_int diastolicBP + real_of_int (systolicBP - diastolicBP) / 3.0)
      in ((systolicBP, diastolicBP, meanBP), r4))"

definition gen_ibp1 :: "int \<Rightarrow> int \<Rightarrow> int \<Rightarrow> rng \<Rightarrow> (int \<times> int \<times> int) \<times> rng" where
  "gen_ibp1 c systolicBP diastolicBP r =
     (let ibp1_sys_base = real_of_int (systolicBP + 5);
          ibp1_dia_base = real_of_int (diastolicBP - 2);
          (ibp1_sys_base, r1) = generateExtremeValue ibp1_sys_base 90 140 (c + 17) r;
          (ibp1_dia_base, r2) = generateExtremeValue ibp1_dia_base 60 90 (c + 19) r1;
          (vs, r3) = addVariation ibp1_sys_base 0.02 r2;
          ibp1Systolic = qRound vs;
          (vd, r4) = addVariation ibp1_dia_base 0.02 r3;
          ibp1Diastolic = qRound vd;
          ibp1Systolic =
            (if ibp1Systolic \<le> ibp1Diastolic then ibp1Diastolic + 20 else ibp1Systolic);
          ibp1Mean =
            qRound (real_of_int ibp1Diastolic + real_of_int (ibp1Systolic - ibp1Diastolic) / 3.0)
      in ((ibp1Systolic, ibp1Diastolic, ibp1Mean), r4))"

definition gen_ibp2 :: "int \<Rightarrow> real \<Rightarrow> real \<Rightarrow> rng \<Rightarrow> (int \<times> int \<times> int) \<times> rng" where
  "gen_ibp2 c ibp2_sys ibp2_dia r =
     (let cvpFactor = sin (real_of_int (c + 50) * 0.025);
          ibp2_sys_base = ibp2_sys + (cvpFactor * 2);
          ibp2_dia_base = ibp2_dia + (cvpFactor * 1.5);
          (ibp2_sys_base, r1) = generateExtremeValue ibp2_sys_base 2 8 (c + 23) r;
          (ibp2_dia_base, r2) = generateExtremeValue ibp2_dia_base 2 8 (c + 29) r1;
          (vs, r3) = addVariation ibp2_sys_base 0.08 r2;
          ibp2Systolic = qRound vs;
          (vd, r4) = addVariation ibp2_dia_base 0.08 r3;
          ibp2Diastolic = qRound vd;
          ibp2Systolic =
            (if ibp2Systolic \<le> ibp2Diastolic then ibp2Diastolic + 2 else ibp2Systolic);
          ibp2Mean =
            qRound (real_of_int ibp2Diastolic + real_of_int (ibp2Systolic - ibp2Diastolic) / 3.0)
      in ((ibp2Systolic, ibp2Diastolic, ibp2Mean), r4))"

definition gen_temperature :: "int \<Rightarrow> real \<Rightarrow> rng \<Rightarrow> real \<times> rng" where
  "gen_temperature c temperature_value r =
     (let temp_base = temperature_value;
          (temp_base, r1) = generateExtremeValue temp_base 36.0 38.0 (c + 31) r;
          hypothermia = (\<lambda>r1.
            if c mod 40 = 0 then
              (let (a, ra) = bounded 100 r1 in
               if a < 20 then
                 (let (b, rb) = bounded 200 ra in (33.0 + real_of_int b / 100.0, rb))
               else (temp_base, ra))
            else (temp_base, r1));
          (temp_base, r2) =
            (if c mod 25 = 0 then
               (let (a, ra) = bounded 100 r1 in
                if a < 30 then
                  (let (b, rb) = bounded 200 ra in (39.0 + real_of_int b / 100.0, rb))
                else hypothermia ra)
             else hypothermia r1)
      in addVariation temp_base 0.005 r2)"

definition gen_temperature2 :: "int \<Rightarrow> real \<Rightarrow> int \<Rightarrow> rng \<Rightarrow> real \<times> rng" where
  "gen_temperature2 c temperature2_value heartRate r =
     (let temp2Factor = (if heartRate < 60 then - 0.1 else if heartRate > 100 then 0.1 else 0);
          temp2_base = temperature2_value + temp2Factor;
          (temp2_base, r1) = generateExtremeValue temp2_base 35.5 37.5 (c + 37) r
      in addVariation temp2_base 0.008 r1)"

definition gen_etco2 :: "int \<Rightarrow> real \<Rightarrow> int \<Rightarrow> rng \<Rightarrow> int \<times> rng" where
  "gen_etco2 c etco2_value respirationRate r =
     (let etco2Factor =
            (if respirationRate > 20 then - 0.2 * real_of_int (respirationRate - 20)
             else if respirationRate < 10 then 0.3 * real_of_int (10 - respirationRate)
             else 0);
          etco2_base = etco2_value + etco2Factor;
          (etco2_base, r1) = generateExtremeValue etco2_base 35 45 (c + 41) r;
          (etco2_base, r2) =
            (if c mod 22 = 0 then
               (let (a, ra) = bounded 100 r1 in
                if a < 35 then
                  (let (b, rb) = bounded 100 ra in
                   if b < 50 then (let (k, rk) = bounded 31 rb in (real_of_int (50 + k), rk))
                   else (let (k, rk) = bounded 16 rb in (real_of_int (15 + k), rk)))
                else (etco2_base, ra))
             else (etco2_base, r1));
          (v, r3) = addVariation etco2_base 0.04 r2
      in (qRound v, r3))"


record ParameterValues =
  pv_heartRate :: int
  pv_respirationRate :: int
  pv_spo2 :: int
  pv_nibp :: "int \<times> int \<times> int"
  pv_ibp1 :: "int \<times> int \<times> int"
  pv_ibp2 :: "int \<times> int \<times> int"
  pv_temperature :: real
  pv_temperature2 :: real
  pv_etco2 :: int

definition synthesize :: "int \<Rightarrow> DemoDataProvider \<Rightarrow> rng \<Rightarrow> ParameterValues \<times> rng" where
  "synthesize c p r =
     (let heart_rate = dp_heart_rate p;
          (heartRate, r1) = gen_heartRate c heart_rate r;
          (respirationRate, r2) =
            gen_respirationRate c (dp_respiration_rate p) heart_rate heartRate r1;
          (spo2, r3) = gen_spo2 c (dp_spo2 p) heart_rate heartRate r2;
          (nibp, r4) =
            gen_nibp c (dp_systolic_bp p) (dp_diastolic_bp p) heart_rate heartRate r3;
          (ibp1, r5) = gen_ibp1 c (fst nibp) (fst (snd nibp)) r4;
          (ibp2, r6) = gen_ibp2 c (dp_ibp2_systolic p) (dp_ibp2_diastolic p) r5;
          (temperature, r7) = gen_temperature c (dp_temperature p) r6;
          (temperature2, r8) = gen_temperature2 c (dp_temperature2 p) heartRate r7;
          (etco2, r9) = gen_etco2 c (dp_etco2 p) respirationRate r8
      in (\<lparr>pv_heartRate = heartRate, pv_respirationRate = respirationRate, pv_spo2 = spo2,
           pv_nibp = nibp, pv_ibp1 = ibp1, pv_ibp2 = ibp2, pv_temperature = temperature,
           pv_temperature2 = temperature2, pv_etco2 = etco2\<rparr>, r9))"

text \<open>
  The fifteen emissions of one tick, in the order of the source, with one timestamp.
  The third parameter of the signal is a \<open>float\<close>: an \<open>int\<close> argument is converted,
  exactly when it lies within \<open>\<plusminus>2\<^sup>2\<^sup>4\<close> (16777216), and the model emits its value.
\<close>

definition parameter_signals :: "int \<Rightarrow> ParameterValues \<Rightarrow> dp_signal list" where
  "parameter_signals timestamp v =
     [parameterDataReceived HR timestamp (real_of_int (pv_heartRate v)),
      parameterDataReceived RR timestamp (real_of_int (pv_respirationRate v)),
      parameterDataReceived SPO2 timestamp (real_of_int (pv_spo2 v)),
      parameterDataReceived NIBP_SYS timestamp (real_of_int (fst (pv_nibp v))),
      parameterDataReceived NIBP_DIA timestamp (real_of_int (fst (snd (pv_nibp v)))),
      parameterDataReceived NIBP_MAP timestamp (real_of_int (snd (snd (pv_nibp v)))),
      parameterDataReceived ETCO2 timestamp (real_of_int (pv_etco2 v)),
      parameterDataReceived TEMP1 timestamp (pv_temperature v),
      parameterDataReceived TEMP2 timestamp (pv_temperature2 v),
      parameterDataReceived IBP1_SYS timestamp (real_of_int (fst (pv_ibp1 v))),
      parameterDataReceived IBP1_DIA timestamp (real_of_int (fst (snd (pv_ibp1 v)))),
      parameterDataReceived IBP1_MAP timestamp (real_of_int (snd (snd (pv_ibp1 v)))),
      parameterDataReceived IBP2_SYS timestamp (real_of_int (fst (pv_ibp2 v))),
      parameterDataReceived IBP2_DIA timestamp (real_of_int (fst (snd (pv_ibp2 v)))),
      parameterDataReceived IBP2_MAP timestamp (real_of_int (snd (snd (pv_ibp2 v))))]"

subsection \<open>The two tick handlers\<close>

text \<open>
  The outcome of a tick handler: the provider afterwards, the signals emitted, the
  messages logged with \<open>qCritical\<close>, and the exception that leaves the handler, if any.
\<close>

record tick_result =
  tr_provider :: DemoDataProvider
  tr_emitted :: "dp_signal list"
  tr_log :: "string list"
  tr_propagated :: "exn option"

text \<open>
  \<open>generateParameterData\<close>: nothing happens unless the provider is connected and active.
  The synthesis and the emissions stand in a \<open>try\<close> block whose two handlers,
  \<open>catch (const std::exception&)\<close> and \<open>catch (...)\<close>, log and return.  \<open>now\<close> is the
  clock read for the timestamp.
\<close>

definition generateParameterData :: "int \<Rightarrow> slots \<Rightarrow> DemoDataProvider \<Rightarrow> tick_result" where
  "generateParameterData now slots p =
     (if dp_status p \<noteq> Connected \<or> \<not> dp_active p
      then \<lparr>tr_provider = p, tr_emitted = [], tr_log = [], tr_propagated = None\<rparr>
      else
        (let c = dp_cycleCounter p + 1;
             (values, r) = synthesize c p (dp_random p);
             timestamp = now;
             (emitted, raised) = emit_all slots (parameter_signals timestamp values);
             p' = p\<lparr>dp_cycleCounter := c, dp_random := r\<rparr>
         in case raised of
              None \<Rightarrow>
                \<lparr>tr_provider = p', tr_emitted = emitted, tr_log = [], tr_propagated = None\<rparr>
            | Some (std_exception what) \<Rightarrow>
                \<lparr>tr_provider = p', tr_emitted = emitted,
                 tr_log = [''Exception in generateParameterData: '' @ what],
                 tr_propagated = None\<rparr>
            | Some other_exception \<Rightarrow>
                \<lparr>tr_provider = p', tr_emitted = emitted,
                 tr_log = [''Unknown exception in generateParameterData''],
                 tr_propagated = None\<rparr>))"

text \<open>
  \<open>generateWaveformData\<close>: for each entry of \<open>waveform_generators_\<close>, in the iteration
  order of the map, the generator function is called with the elapsed seconds and three
  points, and its batch is emitted.  A generator is a \<open>std::function\<close>; its call returns
  a batch or raises.  The loop stands in no \<open>try\<close> block: an exception raised by a
  generator or by a slot ends the loop and leaves the handler.
\<close>

type_synonym generator = "real \<Rightarrow> int \<Rightarrow> exn + real list"

fun waveform_loop :: "(int \<times> generator) list \<Rightarrow> real \<Rightarrow> int \<Rightarrow> int \<Rightarrow> slots \<Rightarrow> dp_signal list \<times> exn option" where
  "waveform_loop [] elapsedTimeSeconds pointsPerUpdate timestamp slots = ([], None)"
| "waveform_loop ((waveformId, generatorFunc) # rest) elapsedTimeSeconds pointsPerUpdate
       timestamp slots =
     (case generatorFunc elapsedTimeSeconds pointsPerUpdate of
        Inl e \<Rightarrow> ([], Some e)
      | Inr batch \<Rightarrow>
          (let s = waveformDataReceived waveformId timestamp batch in
           case slots s of
             Some e \<Rightarrow> ([s], Some e)
           | None \<Rightarrow>
               (let (emitted, raised) =
                      waveform_loop rest elapsedTimeSeconds pointsPerUpdate timestamp slots
                in (s # emitted, raised))))"

definition generateWaveformData :: "int \<Rightarrow> int \<Rightarrow> (int \<times> generator) list \<Rightarrow> slots \<Rightarrow> DemoDataProvider \<Rightarrow> tick_result" where
  "generateWaveformData elapsed now waveform_generators slots p =
     (if \<not> dp_active p
      then \<lparr>tr_provider = p, tr_emitted = [], tr_log = [], tr_propagated = None\<rparr>
      else
        (let elapsedTimeSeconds = real_of_int elapsed / 1000.0;
             pointsPerUpdate = 3;
             timestamp = now;
             (emitted, raised) =
               waveform_loop waveform_generators elapsedTimeSeconds pointsPerUpdate
                 timestamp slots
         in \<lparr>tr_provider = p, tr_emitted = emitted, tr_log = [], tr_propagated = raised\<rparr>))"

subsection \<open>The range of the exact arithmetic\<close>

text \<open>
  The provider states from which a parameter tick computes in the range where the
  \<open>int\<close> and \<open>float\<close> arithmetic of the source is exact: the baselines that are rounded
  to an \<open>int\<close> lie within \<open>\<plusminus>2\<^sup>2\<^sup>3\<close> (8388608), the cycle counter, which the tick
  increments and offsets by at most 50, is not negative and below \<open>2\<^sup>3\<^sup>0\<close>, and the
  generator draws from the unit interval.  From such a state every integer that the
  tick rounds and emits lies within \<open>\<plusminus>2\<^sup>2\<^sup>4\<close> (16777216), as proved below.
\<close>

definition baselines_in_range :: "DemoDataProvider \<Rightarrow> bool" where
  "baselines_in_range p =
     (\<bar>dp_heart_rate p\<bar> \<le> 8388608 \<and> \<bar>dp_respiration_rate p\<bar> \<le> 8388608
      \<and> \<bar>dp_spo2 p\<bar> \<le> 8388608 \<and> \<bar>dp_etco2 p\<bar> \<le> 8388608
      \<and> \<bar>dp_systolic_bp p\<bar> \<le> 8388608 \<and> \<bar>dp_diastolic_bp p\<bar> \<le> 8388608
      \<and> \<bar>dp_ibp2_systolic p\<bar> \<le> 8388608 \<and> \<bar>dp_ibp2_diastolic p\<bar> \<le> 8388608
      \<and> 0 \<le> dp_cycleCounter p \<and> dp_cycleCounter p < 1073741824
      \<and> generator_draws (dp_random p))"


section \<open>Routing coordinator\<close>

text \<open>Source: \<^verbatim>\<open>src/core/data_manager.cpp\<close>.\<close>

text \<open>
  A \<open>QMap\<close> is an association list kept in ascending key order; \<open>qmap_insert\<close> is
  \<open>map[key] = value\<close>, \<open>map_of\<close> the lookup, and the first pair is \<open>begin()\<close>.
\<close>

fun qmap_insert :: "'k::linorder \<Rightarrow> 'v \<Rightarrow> ('k \<times> 'v) list \<Rightarrow> ('k \<times> 'v) list" where
  "qmap_insert k v [] = [(k, v)]"
| "qmap_insert k v ((k', v') # rest) =
     (if k < k' then (k, v) # (k', v') # rest
      else if k = k' then (k, v) # rest
      else (k', v') # qmap_insert k v rest)"

text \<open>
  The members of \<open>DataManager\<close> carry the prefix \<open>dm_\<close>.  The provider objects live in
  \<open>providers_\<close>; the shared pointer \<open>current_provider_\<close> is the key of the object it
  points to, or \<open>None\<close> for the null pointer.  \<open>dm_connected\<close> lists the providers whose
  four signals are connected to the manager's slots, one entry per connection made.
  Providers are registered and never removed, so a non-null pointer always has its
  object; the lookups of that object have a branch for its absence all the same.
  Strings are ordered as \<open>std::string\<close> orders them, lexicographically by character
  code.
\<close>

record DataManager =
  dm_providers :: "(string \<times> DemoDataProvider) list"
  dm_current_provider :: "string option"
  dm_connected :: "string list"
  dm_waveform_models :: "(int \<times> WaveformModel) list"
  dm_parameter_models :: "(int \<times> ParameterModel) list"

datatype dm_signal =
  activeProviderChanged string
  | dm_connectionStatusChanged ConnectionStatus
  | dm_errorOccurred int string

definition new_DataManager :: DataManager where
  "new_DataManager =
     \<lparr>dm_providers = [], dm_current_provider = None, dm_connected = [],
      dm_waveform_models = [], dm_parameter_models = []\<rparr>"

definition registerProvider :: "DemoDataProvider \<Rightarrow> DataManager \<Rightarrow> DataManager" where
  "registerProvider provider dm =
     dm\<lparr>dm_providers := qmap_insert (GetName provider) provider (dm_providers dm)\<rparr>"

text \<open>The loops \<^verbatim>\<open>for (int i = 0; i < 13; ++i)\<close> and \<^verbatim>\<open>for (int i = 0; i < 18; ++i)\<close>.\<close>

definition initializeWaveformModels :: "ConfigManager \<Rightarrow> DataManager \<Rightarrow> DataManager" where
  "initializeWaveformModels cm dm =
     fold (\<lambda>i dm. dm\<lparr>dm_waveform_models :=
                        qmap_insert i (new_WaveformModel (GetWaveformConfig cm i) i)
                          (dm_waveform_models dm)\<rparr>)
       (map int [0 ..< 13]) dm"

definition initializeParameterModels :: "int \<Rightarrow> ConfigManager \<Rightarrow> DataManager \<Rightarrow> DataManager" where
  "initializeParameterModels now cm dm =
     fold (\<lambda>i dm. dm\<lparr>dm_parameter_models :=
                        qmap_insert i (new_ParameterModel now (GetParameterConfig cm i) i)
                          (dm_parameter_models dm)\<rparr>)
       (map int [0 ..< 18]) dm"

definition GetWaveformModel :: "int \<Rightarrow> DataManager \<Rightarrow> WaveformModel option" where
  "GetWaveformModel waveformId dm = map_of (dm_waveform_models dm) waveformId"

definition GetParameterModel :: "int \<Rightarrow> DataManager \<Rightarrow> ParameterModel option" where
  "GetParameterModel parameterId dm = map_of (dm_parameter_models dm) parameterId"

definition GetCurrentProvider :: "DataManager \<Rightarrow> DemoDataProvider option" where
  "GetCurrentProvider dm =
     (case dm_current_provider dm of
        None \<Rightarrow> None
      | Some name \<Rightarrow> map_of (dm_providers dm) name)"

text \<open>
  \<open>connect\<close> adds a connection of the current provider, \<open>disconnect\<close> removes all of
  them.  The provider's status signal reaches the manager's subscribers once per
  connection (\<open>HandleConnectionStatusChanged\<close> re-emits it unchanged).
\<close>

definition connectProviderSignals :: "DataManager \<Rightarrow> DataManager" where
  "connectProviderSignals dm =
     (case dm_current_provider dm of
        None \<Rightarrow> dm
      | Some name \<Rightarrow> dm\<lparr>dm_connected := dm_connected dm @ [name]\<rparr>)"

definition disconnectProviderSignals :: "DataManager \<Rightarrow> DataManager" where
  "disconnectProviderSignals dm =
     (case dm_current_provider dm of
        None \<Rightarrow> dm
      | Some name \<Rightarrow> dm\<lparr>dm_connected := removeAll name (dm_connected dm)\<rparr>)"

definition forwarded :: "DataManager \<Rightarrow> string \<Rightarrow> dp_signal list \<Rightarrow> dm_signal list" where
  "forwarded dm name sigs =
     concat (map (\<lambda>s. case s of
                         connectionStatusChanged status \<Rightarrow>
                           replicate (count_list (dm_connected dm) name)
                             (dm_connectionStatusChanged status)
                       | errorOccurred errorCode errorMessage \<Rightarrow>
                           replicate (count_list (dm_connected dm) name)
                             (dm_errorOccurred errorCode errorMessage)
                       | _ \<Rightarrow> [])
               sigs)"

text \<open>\<open>current_provider_->stop()\<close>: the object the pointer refers to is stopped in place.\<close>

definition stop_current :: "DataManager \<Rightarrow> DataManager \<times> dm_signal list" where
  "stop_current dm =
     (case dm_current_provider dm of
        None \<Rightarrow> (dm, [])
      | Some name \<Rightarrow>
          (case map_of (dm_providers dm) name of
             None \<Rightarrow> (dm, [])
           | Some p \<Rightarrow>
               (let (p', sigs) = stop p
                in (dm\<lparr>dm_providers := qmap_insert name p' (dm_providers dm)\<rparr>,
                    forwarded dm name sigs))))"

definition saveCurrentProviderToSettings :: "DataManager \<Rightarrow> ConfigManager \<Rightarrow> ConfigManager" where
  "saveCurrentProviderToSettings dm cm =
     (case GetCurrentProvider dm of
        None \<Rightarrow> cm
      | Some p \<Rightarrow> SetLastProvider (GetName p) cm)"

text \<open>
  \<open>SetActiveProvider\<close> returns its result with the manager, the configuration and the
  signals the manager emitted.  In the branch for the empty name the pointer is cleared
  before \<open>saveCurrentProviderToSettings\<close> is called.
\<close>

definition SetActiveProvider :: "string \<Rightarrow> DataManager \<Rightarrow> ConfigManager \<Rightarrow> bool \<times> DataManager \<times> ConfigManager \<times> dm_signal list" where
  "SetActiveProvider providerName dm cm =
     (if providerName = [] \<and> dm_current_provider dm \<noteq> None then
        (let dm1 = disconnectProviderSignals dm;
             (dm2, fwd) = stop_current dm1;
             dm3 = dm2\<lparr>dm_current_provider := None\<rparr>;
             cm' = saveCurrentProviderToSettings dm3 cm
         in (True, dm3, cm', fwd @ [activeProviderChanged providerName]))
      else if map_of (dm_providers dm) providerName = None then (False, dm, cm, [])
      else
        (let (dm2, fwd) =
               (if dm_current_provider dm \<noteq> None
                then stop_current (disconnectProviderSignals dm) else (dm, []));
             dm3 = dm2\<lparr>dm_current_provider := Some providerName\<rparr>;
             dm4 = connectProviderSignals dm3;
             cm' = SetLastProvider providerName cm
         in (True, dm4, cm', fwd @ [activeProviderChanged providerName])))"

text \<open>
  \<open>initialize\<close>: the synthetic generator is constructed and registered, the models are
  created, and the last-used provider, or else the first registered one, is activated.
  Nothing in the modelled sequence raises, so the result is true.
\<close>

definition initialize :: "int \<Rightarrow> rng \<Rightarrow> DataManager \<Rightarrow> ConfigManager \<Rightarrow> bool \<times> DataManager \<times> ConfigManager \<times> dm_signal list" where
  "initialize now r dm cm =
     (let (demoProvider, cm1) = new_DemoDataProvider r cm;
          dm1 = registerProvider demoProvider dm;
          dm2 = initializeWaveformModels cm1 dm1;
          dm3 = initializeParameterModels now cm1 dm2;
          lastProvider = GetLastProvider cm1
      in if lastProvider \<noteq> [] then
           (let (ok, dm', cm', sigs) = SetActiveProvider lastProvider dm3 cm1
            in (True, dm', cm', sigs))
         else if dm_providers dm3 \<noteq> [] then
           (let (ok, dm', cm', sigs) = SetActiveProvider (fst (hd (dm_providers dm3))) dm3 cm1
            in (True, dm', cm', sigs))
         else (True, dm3, cm1, []))"

text \<open>
  \<open>startAcquisition\<close> fails without an active provider; otherwise it stops a running
  provider, activates every parameter model and starts the provider.  The provider's
  connection completes later, in its timer callback.
\<close>

definition startAcquisition :: "DataManager \<Rightarrow> bool \<times> DataManager \<times> dm_signal list" where
  "startAcquisition dm =
     (case dm_current_provider dm of
        None \<Rightarrow>
          (False, dm, [dm_errorOccurred 200 ''Cannot start acquisition: No active provider''])
      | Some name \<Rightarrow>
          (case map_of (dm_providers dm) name of
             None \<Rightarrow> (False, dm, [])
           | Some p \<Rightarrow>
               (let (p1, sigs1) = (if isActive p then stop p else (p, []));
                    models =
                      map (\<lambda>(i, m). (i, if \<not> pm_active m then fst (pm_SetActive True m) else m))
                        (dm_parameter_models dm);
                    (success, p2, sigs2) = start p1
                in (success,
                    dm\<lparr>dm_providers := qmap_insert name p2 (dm_providers dm),
                       dm_parameter_models := models\<rparr>,
                    forwarded dm name (sigs1 @ sigs2)))))"

definition provider_connection_completed :: "DataManager \<Rightarrow> DataManager \<times> dm_signal list" where
  "provider_connection_completed dm =
     (case dm_current_provider dm of
        None \<Rightarrow> (dm, [])
      | Some name \<Rightarrow>
          (case map_of (dm_providers dm) name of
             None \<Rightarrow> (dm, [])
           | Some p \<Rightarrow>
               (let (p', sigs) = connection_completed p
                in (dm\<lparr>dm_providers := qmap_insert name p' (dm_providers dm)\<rparr>,
                    forwarded dm name sigs))))"


section \<open>Fixtures\<close>

text \<open>
  Concrete states for the scenarios and for evaluating the operations: the heart-rate
  model of Scenario A with the catalog thresholds (40, 50, 120, 150) and the same model
  with non-monotonic thresholds; a waveform model as constructed without stored
  configuration, one resized to five samples as in Scenario B, and that one after a
  first batch at time 10.
\<close>

definition hr_model :: ParameterModel where
  "hr_model = new_ParameterModel 1 empty_ParameterConfig HR"

definition misconfigured_model :: ParameterModel where
  "misconfigured_model = fst (SetAlarmLimits 100 110 50 200 hr_model)"

definition fresh_waveform_model :: WaveformModel where
  "fresh_waveform_model = new_WaveformModel empty_WaveformConfig ECG_I"

definition capacity5_model :: WaveformModel where
  "capacity5_model = fst (SetMaxBufferSize 5 fresh_waveform_model)"

definition model_after_first_batch :: WaveformModel where
  "model_after_first_batch = fst (addWaveformData 10 [1, 2, 3] capacity5_model)"

text \<open>
  A generator whose every draw is one half (no variation is added), a provider with the
  default baselines after \<open>start\<close> and the completed connection, and one configured
  with the baselines 101 over 90 for the blood pressure.  A generator function and a
  slot that raise \<open>std::bad_alloc\<close>.
\<close>

definition half_draws :: rng where
  "half_draws = \<lparr>rng_draws = (\<lambda>k. 0.5), rng_pos = 0\<rparr>"

definition connected_provider :: DemoDataProvider where
  "connected_provider =
     (let (p0, cm0) = new_DemoDataProvider half_draws new_ConfigManager;
          (ok, p1, sigs) = start p0
      in fst (connection_completed p1))"

definition narrow_config :: ProviderConfig where
  "narrow_config =
     empty_ProviderConfig\<lparr>cfg_systolicBP := Some 101, cfg_diastolicBP := Some 90\<rparr>"

definition narrow_provider :: DemoDataProvider where
  "narrow_provider =
     (let (p0, cm0) = new_DemoDataProvider half_draws new_ConfigManager;
          (ok, p1, cm1) = configure narrow_config p0 cm0;
          (ok, p2, sigs) = start p1
      in fst (connection_completed p2))"

definition failing_generator :: generator where
  "failing_generator t n = Inl (std_exception ''std::bad_alloc'')"

definition failing_slots :: slots where
  "failing_slots s = Some (std_exception ''std::bad_alloc'')"

text \<open>
  A coordinator after \<open>initialize\<close> on an empty configuration, and the same after
  \<open>startAcquisition\<close> and the completed connection of its provider.
\<close>

definition initialized_manager :: "DataManager \<times> ConfigManager" where
  "initialized_manager =
     (let (ok, dm, cm, sigs) = initialize 1 half_draws new_DataManager new_ConfigManager
      in (dm, cm))"

definition running_manager :: "DataManager \<times> ConfigManager" where
  "running_manager =
     (let (dm, cm) = initialized_manager;
          (ok, dm1, sigs1) = startAcquisition dm;
          (dm2, sigs2) = provider_connection_completed dm1
      in (dm2, cm))"

text \<open>
  The three blood-pressure groups, each as (systolic, diastolic, mean) identifiers,
  what every synthesised triple satisfies, and a triple whose three values lie within
  \<open>\<plusminus>n\<close>.
\<close>

definition bp_groups :: "(ParameterType \<times> ParameterType \<times> ParameterType) list" where
  "bp_groups =
     [(NIBP_SYS, NIBP_DIA, NIBP_MAP), (IBP1_SYS, IBP1_DIA, IBP1_MAP),
      (IBP2_SYS, IBP2_DIA, IBP2_MAP)]"

definition bp_triple_ok :: "int \<times> int \<times> int \<Rightarrow> bool" where
  "bp_triple_ok t =
     (case t of (s, d, m) \<Rightarrow>
        d < s \<and> m = qRound (real_of_int d + real_of_int (s - d) / 3.0))"

definition bp_triple_within :: "int \<Rightarrow> int \<times> int \<times> int \<Rightarrow> bool" where
  "bp_triple_within n t = (case t of (s, d, m) \<Rightarrow> \<bar>s\<bar> \<le> n \<and> \<bar>d\<bar> \<le> n \<and> \<bar>m\<bar> \<le> n)"


section \<open>The enumerators, unfolded\<close>

lemmas WaveformType_defs =
  ECG_I_def ECG_II_def ECG_III_def RESP_def PLETH_def ABP_def CVP_def CAPNO_def EEG_def

lemmas ParameterType_defs =
  HR_def RR_def SPO2_def NIBP_SYS_def NIBP_DIA_def NIBP_MAP_def TEMP1_def TEMP2_def
  ETCO2_def IBP1_SYS_def IBP1_DIA_def IBP1_MAP_def IBP2_SYS_def IBP2_DIA_def IBP2_MAP_def


section \<open>Properties of the parameter model\<close>

lemma thresholds_hr_model: "thresholds hr_model = (40, 50, 120, 150)"
  by (simp add: thresholds_def hr_model_def new_ParameterModel_def GetDefaultAlarmLimits_def
      or_default_def empty_ParameterConfig_def Let_def)

lemma UpdateValue_thresholds: "thresholds (fst (UpdateValue now t v m)) = thresholds m"
  by (simp add: UpdateValue_def Let_def thresholds_def)

lemma UpdateValue_severity:
  "GetAlarmState (fst (UpdateValue now t v m)) =
     spec_severity (pm_low_critical m) (pm_low_warning m) (pm_high_warning m)
       (pm_high_critical m) v"
  by (simp add: UpdateValue_def Let_def GetAlarmState_def)

lemma thresholds_misconfigured_model: "thresholds misconfigured_model = (100, 110, 50, 200)"
  by (simp add: misconfigured_model_def SetAlarmLimits_def UpdateAlarmState_def Let_def
      thresholds_def)

text \<open>
  The two evaluations of the severity, \<open>UpdateValue\<close> and \<open>UpdateAlarmState\<close>, agree
  when the thresholds are monotonic and the value equals none of them.
\<close>

lemma severity_paths_agree:
  assumes "pm_low_critical m \<le> pm_low_warning m" "pm_low_warning m \<le> pm_high_warning m"
    "pm_high_warning m \<le> pm_high_critical m"
    and "v \<notin> {pm_low_critical m, pm_low_warning m, pm_high_warning m, pm_high_critical m}"
  shows "GetAlarmState (UpdateAlarmState (m\<lparr>pm_value := v\<rparr>)) =
         GetAlarmState (fst (UpdateValue now t v m))"
  using assms by (auto simp: UpdateAlarmState_def UpdateValue_def GetAlarmState_def Let_def)

text \<open>
  C2.  \<open>UpdateValue\<close> derives the severity by the priority order of the specification:
  above high critical, else above high warning, else below low critical, else below low
  warning, else Normal.  With the thresholds (40, 50, 120, 150) the successive values
  160, 125, 90, 35 give HighCritical, HighWarning, Normal, LowCritical.  The high
  thresholds are checked first: a value below low critical that is, by misconfiguration,
  above high warning reports a high state.
\<close>

theorem C2_UpdateValue_priority_order:
  "GetAlarmState (fst (UpdateValue now t v m)) =
     spec_severity (pm_low_critical m) (pm_low_warning m) (pm_high_warning m)
       (pm_high_critical m) v
   \<and> thresholds hr_model = (40, 50, 120, 150)
   \<and> (let m1 = fst (UpdateValue now t 160 hr_model);
           m2 = fst (UpdateValue now (t + 1) 125 m1);
           m3 = fst (UpdateValue now (t + 2) 90 m2);
           m4 = fst (UpdateValue now (t + 3) 35 m3)
       in map GetAlarmState [m1, m2, m3, m4] = [HighCritical, HighWarning, Normal, LowCritical])
   \<and> (v < pm_low_critical m \<and> v > pm_high_warning m \<longrightarrow>
        GetAlarmState (fst (UpdateValue now t v m)) =
          (if v > pm_high_critical m then HighCritical else HighWarning))"
proof -
  have lim: "pm_low_critical hr_model = 40" "pm_low_warning hr_model = 50"
    "pm_high_warning hr_model = 120" "pm_high_critical hr_model = 150"
    using thresholds_hr_model by (simp_all add: thresholds_def)
  have keep: "pm_low_critical (fst (UpdateValue n s x k)) = pm_low_critical k"
    "pm_low_warning (fst (UpdateValue n s x k)) = pm_low_warning k"
    "pm_high_warning (fst (UpdateValue n s x k)) = pm_high_warning k"
    "pm_high_critical (fst (UpdateValue n s x k)) = pm_high_critical k" for n s x k
    using UpdateValue_thresholds [of n s x k] by (simp_all add: thresholds_def)
  show ?thesis
    by (simp add: UpdateValue_severity thresholds_hr_model Let_def keep lim)
qed

theorem C2_UpdateValue_priority_order_witness:
  "(60::real) < pm_low_critical misconfigured_model
   \<and> 60 > pm_high_warning misconfigured_model
   \<and> GetAlarmState (fst (UpdateValue 1 1 60 misconfigured_model)) = HighWarning"
  using C2_UpdateValue_priority_order [of 1 1 60 misconfigured_model]
    thresholds_misconfigured_model
  by (simp add: thresholds_def)

text \<open>
  C1.  The severity after \<open>SetAlarmLimits\<close> is computed by \<open>UpdateAlarmState\<close>, whose
  comparisons are non-strict and start with the low thresholds, while \<open>UpdateValue\<close>
  compares strictly and starts with the high thresholds.  At the value 150 with the
  thresholds (40, 50, 120, 150) the model whose value was set last reports HighWarning
  and the model whose thresholds were set last reports HighCritical, although both hold
  the same value and the same thresholds.
\<close>

theorem C1_severity_depends_on_update_order:
  "(let m1 = fst (UpdateValue 1 1 150 (fst (SetAlarmLimits 40 50 120 150 hr_model)));
        m2 = fst (SetAlarmLimits 40 50 120 150 (fst (UpdateValue 1 1 150 hr_model)))
    in pm_value m1 = pm_value m2 \<and> thresholds m1 = thresholds m2
       \<and> GetAlarmState m1 = HighWarning \<and> GetAlarmState m2 = HighCritical)"
  by (simp add: UpdateValue_def SetAlarmLimits_def UpdateAlarmState_def Let_def
      thresholds_def GetAlarmState_def)

section \<open>Properties of the waveform buffer model\<close>

subsection \<open>The loops as list operations\<close>

lemma shift_loop_aux:
  "j \<le> length d - a \<Longrightarrow>
   length (fold (\<lambda>i d. d[i := d ! (i + a)]) [0..<j] d) = length d \<and>
   (\<forall>p < length d. fold (\<lambda>i d. d[i := d ! (i + a)]) [0..<j] d ! p =
        (if p < j then d ! (p + a) else d ! p))"
proof (induction j)
  case 0
  then show ?case by simp
next
  case (Suc j)
  then have IH: "length (fold (\<lambda>i d. d[i := d ! (i + a)]) [0..<j] d) = length d"
    "\<And>p. p < length d \<Longrightarrow>
       fold (\<lambda>i d. d[i := d ! (i + a)]) [0..<j] d ! p = (if p < j then d ! (p + a) else d ! p)"
    by auto
  show ?case
    using IH Suc.prems by (auto simp: nth_list_update)
qed

lemma length_shift_loop: "length (shift_loop (length d) a d) = length d"
  using shift_loop_aux [of "length d - a" d a] by (simp add: shift_loop_def)

lemma nth_shift_loop:
  "p < length d \<Longrightarrow>
   shift_loop (length d) a d ! p = (if p < length d - a then d ! (p + a) else d ! p)"
  using shift_loop_aux [of "length d - a" d a] by (simp add: shift_loop_def)

lemma append_loop_aux:
  "j \<le> a \<Longrightarrow> a \<le> n \<Longrightarrow> length d = n \<Longrightarrow>
   length (fold (\<lambda>i d. d[n - a + i := batch ! i]) [0..<j] d) = n \<and>
   (\<forall>p < n. fold (\<lambda>i d. d[n - a + i := batch ! i]) [0..<j] d ! p =
        (if n - a \<le> p \<and> p < n - a + j then batch ! (p - (n - a)) else d ! p))"
proof (induction j)
  case 0
  then show ?case by auto
next
  case (Suc j)
  then have IH: "length (fold (\<lambda>i d. d[n - a + i := batch ! i]) [0..<j] d) = n"
    "\<And>p. p < n \<Longrightarrow> fold (\<lambda>i d. d[n - a + i := batch ! i]) [0..<j] d ! p =
        (if n - a \<le> p \<and> p < n - a + j then batch ! (p - (n - a)) else d ! p)"
    by auto
  show ?case
    using IH Suc.prems by (auto simp: nth_list_update)
qed

lemma shift_append_eq:
  assumes "length batch < length d"
  shows "append_loop (length d) (length batch) batch (shift_loop (length d) (length batch) d)
         = drop (length batch) d @ batch"
proof (rule nth_equalityI)
  let ?n = "length d" and ?a = "length batch"
  let ?s = "shift_loop ?n ?a d"
  have ls: "length ?s = ?n" by (rule length_shift_loop)
  have ap: "length (append_loop ?n ?a batch ?s) = ?n \<and>
   (\<forall>p < ?n. append_loop ?n ?a batch ?s ! p =
        (if ?n - ?a \<le> p \<and> p < ?n - ?a + ?a then batch ! (p - (?n - ?a)) else ?s ! p))"
    unfolding append_loop_def using assms ls by (intro append_loop_aux) auto
  show "length (append_loop ?n ?a batch ?s) = length (drop ?a d @ batch)"
    using ap assms by simp
  fix p assume "p < length (append_loop ?n ?a batch ?s)"
  then have p: "p < ?n" using ap by simp
  show "append_loop ?n ?a batch ?s ! p = (drop ?a d @ batch) ! p"
    using ap p assms by (auto simp: nth_append nth_shift_loop add.commute)
qed

lemma addWaveformData_accepted:
  assumes "wm_active m" "batch \<noteq> []"
    "\<not> (timestamp \<le> wm_last_timestamp m \<and> wm_last_timestamp m \<noteq> 0)"
  shows "GetData (fst (addWaveformData timestamp batch m)) =
     (if length batch \<ge> length (wm_data m) then drop (length batch - length (wm_data m)) batch
      else drop (length batch) (wm_data m) @ batch)"
  using assms by (auto simp: addWaveformData_def GetData_def Let_def mid_def shift_append_eq)

lemma length_resize: "0 \<le> n \<Longrightarrow> length (resize n xs) = nat n"
  by (simp add: resize_def)

lemma seed_loop_aux:
  "j \<le> length d \<Longrightarrow>
   length (fold (\<lambda>i d. d[i := f i]) [0..<j] d) = length d \<and>
   (\<forall>p < length d. fold (\<lambda>i d. d[i := f i]) [0..<j] d ! p = (if p < j then f p else d ! p))"
proof (induction j)
  case 0
  then show ?case by simp
next
  case (Suc j)
  then have IH: "length (fold (\<lambda>i d. d[i := f i]) [0..<j] d) = length d"
    "\<And>p. p < length d \<Longrightarrow>
       fold (\<lambda>i d. d[i := f i]) [0..<j] d ! p = (if p < j then f p else d ! p)"
    by auto
  show ?case
    using IH Suc.prems by (auto simp: nth_list_update)
qed

lemma seed_loop_eq:
  assumes "0 \<le> n"
  shows "seed_loop n (resize n []) = map (seed_sample n) [0..<nat n]"
proof (rule nth_equalityI)
  have l: "length (resize n []) = nat n" using assms by (simp add: length_resize)
  have a: "length (seed_loop n (resize n [])) = nat n \<and>
     (\<forall>p < nat n. seed_loop n (resize n []) ! p = seed_sample n p)"
    using seed_loop_aux [of "nat n" "resize n []" "seed_sample n"] l
    by (simp add: seed_loop_def)
  show "length (seed_loop n (resize n [])) = length (map (seed_sample n) [0..<nat n])"
    using a by simp
  fix p assume "p < length (seed_loop n (resize n []))"
  then show "seed_loop n (resize n []) ! p = map (seed_sample n) [0..<nat n] ! p"
    using a by simp
qed

lemma seed_sample_le: "seed_sample n i \<le> 1 / 2"
proof -
  have "sin (real i / real_of_int n * 2 * pi) \<le> 1" by (rule sin_le_one)
  then show ?thesis by (simp add: seed_sample_def)
qed

subsection \<open>Capacity\<close>

text \<open>
  The size of the buffer equals the capacity \<open>max_buffer_size_\<close> after the constructor
  and after \<open>SetMaxBufferSize\<close> (for non-negative sizes), and \<open>addWaveformData\<close> changes
  neither, whether it accepts the batch or not.
\<close>

lemma new_WaveformModel_capacity:
  "0 \<le> or_default (wc_bufferSize cfg) 0 \<Longrightarrow>
   int (length (wm_data (new_WaveformModel cfg t))) =
     wm_max_buffer_size (new_WaveformModel cfg t)"
  by (cases "wc_bufferSize cfg")
    (simp_all add: new_WaveformModel_def Let_def or_default_def DEFAULT_BUFFER_SIZE_def
      seed_loop_eq length_resize)

lemma SetMaxBufferSize_capacity:
  "0 \<le> n \<Longrightarrow> int (length (wm_data m)) = wm_max_buffer_size m \<Longrightarrow>
   int (length (wm_data (fst (SetMaxBufferSize n m)))) =
     wm_max_buffer_size (fst (SetMaxBufferSize n m))"
  by (simp add: SetMaxBufferSize_def length_resize)

lemma addWaveformData_capacity:
  "length (wm_data (fst (addWaveformData timestamp batch m))) = length (wm_data m)
   \<and> wm_max_buffer_size (fst (addWaveformData timestamp batch m)) = wm_max_buffer_size m"
proof (cases "batch = [] \<or> \<not> wm_active m
    \<or> (timestamp \<le> wm_last_timestamp m \<and> wm_last_timestamp m \<noteq> 0)")
  case True
  then show ?thesis by (auto simp: addWaveformData_def)
next
  case False
  then have a: "wm_active m" "batch \<noteq> []"
    "\<not> (timestamp \<le> wm_last_timestamp m \<and> wm_last_timestamp m \<noteq> 0)" by auto
  have "length (GetData (fst (addWaveformData timestamp batch m))) = length (wm_data m)"
    unfolding addWaveformData_accepted [OF a] by auto
  moreover have
    "wm_max_buffer_size (fst (addWaveformData timestamp batch m)) = wm_max_buffer_size m"
    by (simp add: addWaveformData_def Let_def)
  ultimately show ?thesis by (simp add: GetData_def)
qed

subsection \<open>Fixtures\<close>

lemma new_WaveformModel_default_data:
  "wm_data (new_WaveformModel (cfg\<lparr>wc_bufferSize := None\<rparr>) t) =
     map (seed_sample 1000) [0..<1000]"
  by (simp add: new_WaveformModel_def Let_def DEFAULT_BUFFER_SIZE_def seed_loop_eq)

lemma fresh_data: "wm_data fresh_waveform_model = map (seed_sample 1000) [0..<1000]"
  using new_WaveformModel_default_data [of empty_WaveformConfig ECG_I]
  by (simp add: fresh_waveform_model_def empty_WaveformConfig_def)

lemma fresh_fields:
  "wm_active fresh_waveform_model" "wm_last_timestamp fresh_waveform_model = 0"
  "wm_max_buffer_size fresh_waveform_model = 1000"
  by (simp_all add: fresh_waveform_model_def new_WaveformModel_def Let_def or_default_def
      empty_WaveformConfig_def DEFAULT_BUFFER_SIZE_def)

lemma capacity5:
  "length (wm_data capacity5_model) = 5 \<and> wm_active capacity5_model
   \<and> wm_last_timestamp capacity5_model = 0"
  by (simp add: capacity5_model_def fresh_waveform_model_def SetMaxBufferSize_def
      new_WaveformModel_def Let_def DEFAULT_BUFFER_SIZE_def length_resize or_default_def
      empty_WaveformConfig_def)

lemma after_first_batch: "wm_last_timestamp model_after_first_batch = 10"
  using capacity5 by (simp add: model_after_first_batch_def addWaveformData_def Let_def)

subsection \<open>Main properties\<close>

text \<open>
  C3.  An accepted call to \<open>addWaveformData\<close> on an active model (a non-empty batch with a
  timestamp greater than the last accepted one) on a buffer of \<open>N\<close> samples: a batch of at
  least \<open>N\<close> samples leaves exactly its last \<open>N\<close> samples; a shorter batch shifts the
  contents left by its size and is appended at the end; the buffer keeps the length \<open>N\<close>
  and the model its capacity, the timestamp is stored and \<open>dataUpdated\<close> is emitted.  With \<open>N = 5\<close>, adding
  [1, 2, 3] and then [4, 5, 6] at a later time leaves [2, 3, 4, 5, 6].
\<close>

theorem C3_addWaveformData_fifo:
  "wm_active m \<Longrightarrow> batch \<noteq> [] \<Longrightarrow> wm_last_timestamp m < timestamp \<Longrightarrow>
   (let N = length (wm_data m); m' = fst (addWaveformData timestamp batch m) in
      GetData m' = (if length batch \<ge> N then drop (length batch - N) batch
                    else drop (length batch) (wm_data m) @ batch)
      \<and> length (GetData m') = N
      \<and> wm_max_buffer_size m' = wm_max_buffer_size m
      \<and> snd (addWaveformData timestamp batch m) = [dataUpdated]
      \<and> wm_last_timestamp m' = timestamp
      \<and> (N = 5 \<and> batch = [1, 2, 3] \<and> timestamp < t2 \<longrightarrow>
           GetData (fst (addWaveformData t2 [4, 5, 6] m')) = [2, 3, 4, 5, 6]))"
proof -
  assume a: "wm_active m" "batch \<noteq> []" "wm_last_timestamp m < timestamp"
  let ?m' = "fst (addWaveformData timestamp batch m)"
  have acc: "\<not> (timestamp \<le> wm_last_timestamp m \<and> wm_last_timestamp m \<noteq> 0)"
    using a by simp
  have d: "GetData ?m' =
      (if length batch \<ge> length (wm_data m) then drop (length batch - length (wm_data m)) batch
       else drop (length batch) (wm_data m) @ batch)"
    using addWaveformData_accepted [OF a(1,2) acc] .
  have l: "length (GetData ?m') = length (wm_data m)" unfolding d by auto
  have s: "snd (addWaveformData timestamp batch m) = [dataUpdated]"
      "wm_last_timestamp ?m' = timestamp" "wm_active ?m'"
      "wm_max_buffer_size ?m' = wm_max_buffer_size m"
    using a acc by (auto simp: addWaveformData_def Let_def)
  have sc: "GetData (fst (addWaveformData t2 [4, 5, 6] ?m')) = [2, 3, 4, 5, 6]"
    if h: "length (wm_data m) = 5" "batch = [1, 2, 3]" "timestamp < t2"
  proof -
    obtain a0 a1 a2 a3 a4 where w: "wm_data m = [a0, a1, a2, a3, a4]"
      using h(1) by (auto simp: length_Suc_conv eval_nat_numeral)
    have g: "GetData ?m' = [a3, a4, 1, 2, 3]" unfolding d using h w by simp
    have acc2: "\<not> (t2 \<le> wm_last_timestamp ?m' \<and> wm_last_timestamp ?m' \<noteq> 0)"
      using s h by simp
    show ?thesis
      using addWaveformData_accepted [OF s(3) _ acc2, of "[4, 5, 6]"] g
      by (simp add: GetData_def)
  qed
  show ?thesis using d l s sc by (simp add: Let_def)
qed

theorem C3_addWaveformData_fifo_witness:
  "GetData (fst (addWaveformData 20 [4, 5, 6]
      (fst (addWaveformData 10 [1, 2, 3] capacity5_model)))) = [2, 3, 4, 5, 6]
   \<and> length (GetData (fst (addWaveformData 10 [1, 2, 3] capacity5_model))) = 5"
  using C3_addWaveformData_fifo [of capacity5_model "[1, 2, 3]" 10 20] capacity5
  by (simp add: Let_def)

text \<open>
  C4, as claimed, fails on a freshly constructed model: its last accepted timestamp is 0,
  and the first call with the timestamp \<open>- 5\<close> (not greater than 0) is accepted; it stores
  the timestamp, changes the buffer and emits \<open>dataUpdated\<close>.
\<close>

theorem C4_first_call_counterexample:
  "out_of_order (- 5) fresh_waveform_model
   \<and> snd (addWaveformData (- 5) [1] fresh_waveform_model) = [dataUpdated]
   \<and> wm_last_timestamp (fst (addWaveformData (- 5) [1] fresh_waveform_model)) = - 5
   \<and> wm_last_timestamp fresh_waveform_model = 0
   \<and> last (GetData (fst (addWaveformData (- 5) [1] fresh_waveform_model))) = 1
   \<and> last (GetData fresh_waveform_model) \<le> 1 / 2"
proof -
  have acc: "\<not> (- 5 \<le> wm_last_timestamp fresh_waveform_model
               \<and> wm_last_timestamp fresh_waveform_model \<noteq> 0)"
    by (simp add: fresh_fields)
  have d: "GetData (fst (addWaveformData (- 5) [1] fresh_waveform_model)) =
             drop 1 (wm_data fresh_waveform_model) @ [1]"
    using addWaveformData_accepted [OF fresh_fields(1) _ acc, of "[1]"]
    by (simp add: fresh_data)
  have l: "last (GetData fresh_waveform_model) = seed_sample 1000 999"
    by (simp add: GetData_def fresh_data last_map last_conv_nth)
  show ?thesis
    unfolding d l using seed_sample_le [of 1000 999]
    by (simp add: out_of_order_def fresh_fields addWaveformData_def Let_def)
qed

text \<open>
  C4, amended.  A call whose timestamp is not greater than the last accepted timestamp is
  rejected whenever that last accepted timestamp is not 0: the model (its buffer and its
  last accepted timestamp included) is returned unchanged and no signal is emitted.
\<close>

theorem C4_out_of_order_rejected:
  "out_of_order timestamp m \<Longrightarrow> wm_last_timestamp m \<noteq> 0 \<Longrightarrow>
   addWaveformData timestamp batch m = (m, [])"
  by (simp add: out_of_order_def addWaveformData_def)

theorem C4_out_of_order_rejected_witness:
  "out_of_order 10 model_after_first_batch \<and> wm_last_timestamp model_after_first_batch \<noteq> 0
   \<and> addWaveformData 10 [7, 8] model_after_first_batch = (model_after_first_batch, [])"
  using C4_out_of_order_rejected [of 10 model_after_first_batch "[7, 8]"] after_first_batch
  by (simp add: out_of_order_def)

text \<open>
  C8.  A waveform model constructed from a configuration without a \<open>bufferSize\<close> entry
  has the capacity \<open>DEFAULT_BUFFER_SIZE = 1000\<close>, and its seeded buffer has 1000 samples;
  the product of the catalog's sample rate and buffer seconds is 2500.
\<close>

theorem C8_default_capacity_is_1000:
  "wm_max_buffer_size (new_WaveformModel (cfg\<lparr>wc_bufferSize := None\<rparr>) t) = 1000
   \<and> length (GetData (new_WaveformModel (cfg\<lparr>wc_bufferSize := None\<rparr>) t)) = 1000
   \<and> DEFAULT_SAMPLE_RATE * DEFAULT_BUFFER_SECONDS = 2500"
  by (simp add: GetData_def new_WaveformModel_default_data)
    (simp add: new_WaveformModel_def Let_def or_default_def DEFAULT_BUFFER_SIZE_def
      DEFAULT_SAMPLE_RATE_def DEFAULT_BUFFER_SECONDS_def)

section \<open>Properties of the synthetic generator\<close>

subsection \<open>Emission and the tick boundary\<close>

lemma emit_all_no_slots: "emit_all no_slots sigs = (sigs, None)"
  by (induction sigs) (simp_all add: no_slots_def)

lemma emit_all_subset: "set (fst (emit_all slots sigs)) \<subseteq> set sigs"
  by (induction sigs) (auto simp: split_def Let_def split: option.splits)

lemma generateParameterData_emitted:
  "dp_status p = Connected \<Longrightarrow> dp_active p \<Longrightarrow>
   tr_emitted (generateParameterData now no_slots p) =
     parameter_signals now (fst (synthesize (dp_cycleCounter p + 1) p (dp_random p)))"
  by (simp add: generateParameterData_def Let_def split_def emit_all_no_slots)

lemma emitted_subset:
  "set (tr_emitted (generateParameterData now slots p)) \<subseteq>
     set (parameter_signals now (fst (synthesize (dp_cycleCounter p + 1) p (dp_random p))))"
  using emit_all_subset
    [of slots "parameter_signals now (fst (synthesize (dp_cycleCounter p + 1) p (dp_random p)))"]
  by (auto simp add: generateParameterData_def Let_def split_def
      split: option.splits exn.splits if_splits)

lemma generateParameterData_never_propagates:
  "tr_propagated (generateParameterData now slots p) = None"
  by (simp add: generateParameterData_def Let_def split_def split: option.split exn.split)

subsection \<open>Rounding of the mean pressure\<close>

lemma qRound_third: "qRound (real_of_int n / 3) = (n + 1) div 3"
proof -
  obtain q r where n: "n = 3 * q + r" and r: "0 \<le> r" "r < 3"
    using div_mult_mod_eq [of n 3] pos_mod_sign [of 3 n] pos_mod_bound [of 3 n]
    by (metis mult.commute zero_less_numeral)
  have x: "real_of_int n / 3 = real_of_int q + real_of_int r / 3" by (simp add: n)
  consider "r = 0" | "r = 1" | "r = 2" using r by linarith
  then have rhs: "(n + 1) div 3 = q + (if r = 2 then 1 else 0)"
    by cases (simp_all add: n)
  have fl: "\<lfloor>real_of_int n / 3 + 1 / 2\<rfloor> = q + (if r = 2 then 1 else 0)"
    unfolding x using r by (intro floor_unique) (auto simp: field_simps)
  have ce: "\<lceil>real_of_int n / 3 - 1 / 2\<rceil> = q + (if r = 2 then 1 else 0)"
    unfolding x using r by (intro ceiling_unique) (auto simp: field_simps)
  show ?thesis by (simp add: qRound_def fl ce rhs)
qed

lemma mean_eq:
  "qRound (real_of_int d + real_of_int (s - d) / 3.0) = (2 * d + s + 1) div 3"
proof -
  have e: "real_of_int d + real_of_int (s - d) / 3.0 = real_of_int (2 * d + s) / 3"
    by (simp add: field_simps)
  show ?thesis unfolding e by (rule qRound_third)
qed

lemma mean_near:
  "\<bar>real_of_int (qRound (real_of_int d + real_of_int (s - d) / 3.0))
      - (real_of_int d + real_of_int (s - d) / 3)\<bar> \<le> 1 / 3"
proof -
  define m where "m = (2 * d + s + 1) div 3"
  have "3 * m \<le> 2 * d + s + 1" "2 * d + s + 1 < 3 * m + 3"
    unfolding m_def by (simp_all add: zdiv_mono1 div_exp_eq)
  then have "\<bar>real_of_int m - (real_of_int d + real_of_int (s - d) / 3)\<bar> \<le> 1 / 3"
    by (simp add: abs_le_iff field_simps)
  then show ?thesis unfolding mean_eq m_def .
qed

subsection \<open>The blocks of the synthesis\<close>

lemma gen_spo2_le: "fst (gen_spo2 c v h hr r) \<le> 100"
  by (simp add: gen_spo2_def Let_def split_def)

lemma synthesize_spo2_le: "pv_spo2 (fst (synthesize c p r)) \<le> 100"
  by (simp add: synthesize_def Let_def split_def gen_spo2_le)

lemma gen_nibp_ok: "bp_triple_ok (fst (gen_nibp c a b h hr r))"
  by (simp add: gen_nibp_def Let_def split_def bp_triple_ok_def)

lemma gen_ibp1_ok: "bp_triple_ok (fst (gen_ibp1 c a b r))"
  by (simp add: gen_ibp1_def Let_def split_def bp_triple_ok_def)

lemma gen_ibp2_ok: "bp_triple_ok (fst (gen_ibp2 c a b r))"
  by (simp add: gen_ibp2_def Let_def split_def bp_triple_ok_def)

lemma synthesize_bp_ok:
  "bp_triple_ok (pv_nibp (fst (synthesize c p r)))"
  "bp_triple_ok (pv_ibp1 (fst (synthesize c p r)))"
  "bp_triple_ok (pv_ibp2 (fst (synthesize c p r)))"
  by (simp_all add: synthesize_def Let_def split_def gen_nibp_ok gen_ibp1_ok gen_ibp2_ok)

lemma bp_triple_okD:
  assumes "bp_triple_ok t"
  shows "real_of_int (fst (snd t)) + 1 \<le> real_of_int (fst t)"
    and "real_of_int (snd (snd t)) =
           real_of_int (qRound (real_of_int (fst (snd t))
              + (real_of_int (fst t) - real_of_int (fst (snd t))) / 3))"
    and "\<bar>real_of_int (snd (snd t))
            - (real_of_int (fst (snd t))
                + (real_of_int (fst t) - real_of_int (fst (snd t))) / 3)\<bar> \<le> 1 / 3"
proof -
  obtain s d m where t: "t = (s, d, m)" by (cases t)
  from assms have a: "d < s" "m = qRound (real_of_int d + real_of_int (s - d) / 3.0)"
    by (simp_all add: t bp_triple_ok_def)
  show "real_of_int (fst (snd t)) + 1 \<le> real_of_int (fst t)" using a by (simp add: t)
  show "real_of_int (snd (snd t)) =
           real_of_int (qRound (real_of_int (fst (snd t))
              + (real_of_int (fst t) - real_of_int (fst (snd t))) / 3))"
    using a by (simp add: t)
  show "\<bar>real_of_int (snd (snd t))
            - (real_of_int (fst (snd t))
                + (real_of_int (fst t) - real_of_int (fst (snd t))) / 3)\<bar> \<le> 1 / 3"
    using mean_near [of d s] a by (simp add: t)
qed

subsection \<open>The range of the synthesised integers\<close>

text \<open>
  With draws from the unit interval, a helper returns a value no larger in absolute value
  than its base or the injected extreme, the variation adds at most its percentage, and
  \<open>qRound\<close> keeps an integer bound.  So baselines within \<open>\<plusminus>2\<^sup>2\<^sup>3\<close> give integers
  within \<open>\<plusminus>2\<^sup>2\<^sup>4\<close>, for the sampled values as for the emitted ones.
\<close>

lemma bounded_range:
  assumes "generator_draws r" "0 < n"
  shows "0 \<le> fst (bounded n r)" "fst (bounded n r) \<le> n - 1"
proof -
  let ?u = "rng_draws r (rng_pos r)"
  have u: "0 \<le> ?u" "?u < 1" using assms(1) by (simp_all add: generator_draws_def)
  have "0 \<le> ?u * real_of_int n" using u assms(2) by simp
  then show "0 \<le> fst (bounded n r)" by (simp add: bounded_def)
  have "?u * real_of_int n < real_of_int n" using u assms(2) by simp
  then have "\<lfloor>?u * real_of_int n\<rfloor> < n" by (simp add: floor_less_iff)
  then show "fst (bounded n r) \<le> n - 1" by (simp add: bounded_def)
qed

lemma draws_kept:
  "rng_draws (snd (bounded n r)) = rng_draws r"
  "rng_draws (snd (generateDouble r)) = rng_draws r"
  "rng_draws (snd (addVariation b pct r)) = rng_draws r"
  by (simp_all add: bounded_def generateDouble_def addVariation_def Let_def split_def)

lemma draws_kept_extreme:
  "rng_draws (snd (generateExtremeValue b mn mx c r)) = rng_draws r"
  "rng_draws (snd (generateCriticalExtremeValue b mn mx c r)) = rng_draws r"
  by (simp_all add: generateExtremeValue_def generateCriticalExtremeValue_def Let_def split_def
      draws_kept)

lemma addVariation_bound:
  assumes "generator_draws r" "0 \<le> pct" "pct \<le> 1"
  shows "\<bar>fst (addVariation b pct r)\<bar> \<le> \<bar>b\<bar> * (1 + pct)"
proof -
  let ?u = "rng_draws r (rng_pos r)"
  have u: "0 \<le> ?u" "?u < 1" using assms(1) by (simp_all add: generator_draws_def)
  have f: "\<bar>?u * 2 - 1\<bar> \<le> 1" using u by (simp add: abs_le_iff)
  have v: "fst (addVariation b pct r) = b + (?u * 2 - 1) * (b * pct)"
    using assms(2,3) by (simp add: addVariation_def generateDouble_def Let_def)
  have "\<bar>(?u * 2 - 1) * (b * pct)\<bar> = \<bar>?u * 2 - 1\<bar> * (\<bar>b\<bar> * pct)"
    using assms(2) by (simp add: abs_mult)
  also have "\<dots> \<le> 1 * (\<bar>b\<bar> * pct)"
    using f assms(2) by (intro mult_right_mono) auto
  finally have "\<bar>(?u * 2 - 1) * (b * pct)\<bar> \<le> \<bar>b\<bar> * pct" by simp
  then show ?thesis unfolding v by (simp add: algebra_simps)
qed


lemma exceed_high:
  assumes "0 \<le> mx" "0 \<le> k" "k \<le> 24" "0 \<le> f"
  shows "\<bar>mx * (f + real_of_int k / 100)\<bar> \<le> mx * (f + 6 / 25)"
proof -
  have "0 \<le> f + real_of_int k / 100" using assms by simp
  moreover have "f + real_of_int k / 100 \<le> f + 6 / 25" using assms by simp
  ultimately show ?thesis using assms(1) by (simp add: abs_mult mult_left_mono)
qed

lemma exceed_low:
  assumes "0 \<le> mn" "0 \<le> k" "k \<le> 24" "6 / 25 \<le> f"
  shows "\<bar>mn * (f - real_of_int k / 100)\<bar> \<le> mn * f"
proof -
  have "0 \<le> f - real_of_int k / 100" using assms by simp
  moreover have "f - real_of_int k / 100 \<le> f" using assms by simp
  ultimately show ?thesis using assms(1) by (simp add: abs_mult mult_left_mono)
qed

lemma generateCriticalExtremeValue_bound:
  assumes "generator_draws r" "0 \<le> mn" "mn \<le> mx"
  shows "\<bar>fst (generateCriticalExtremeValue b mn mx c r)\<bar> \<le> max \<bar>b\<bar> (mx * (7 / 5))"
proof -
  have k: "0 \<le> fst (bounded 25 r') \<and> fst (bounded 25 r') \<le> 24"
    if "rng_draws r' = rng_draws r" for r'
    using bounded_range [of r' 25] assms(1) that by (simp add: generator_draws_def)
  have mx: "0 \<le> mx" using assms by simp
  have hi: "\<bar>mx * (1.15 + real_of_int (fst (bounded 25 r')) / 100)\<bar> \<le> mx * (7 / 5)"
    if "rng_draws r' = rng_draws r" for r'
    using exceed_high [OF mx, of "fst (bounded 25 r')" "1.15"] k [OF that] mx by simp
  have lo: "\<bar>mn * (0.85 - real_of_int (fst (bounded 25 r')) / 100)\<bar> \<le> mx * (7 / 5)"
    if "rng_draws r' = rng_draws r" for r'
  proof -
    have "\<bar>mn * (0.85 - real_of_int (fst (bounded 25 r')) / 100)\<bar> \<le> mn * 0.85"
      using exceed_low [OF assms(2), of "fst (bounded 25 r')" "0.85"] k [OF that] by simp
    also have "\<dots> \<le> mx * (7 / 5)" using assms by simp
    finally show ?thesis .
  qed
  show ?thesis
    using hi [of "snd (bounded 100 (snd (bounded 100 r)))"]
      lo [of "snd (bounded 100 (snd (bounded 100 r)))"]
    by (simp add: generateCriticalExtremeValue_def Let_def split_def draws_kept le_max_iff_disj)
qed

lemma generateExtremeValue_bound:
  assumes "generator_draws r" "0 \<le> mn" "mn \<le> mx"
  shows "\<bar>fst (generateExtremeValue b mn mx c r)\<bar> \<le> max \<bar>b\<bar> (mx * (7 / 5))"
proof -
  have k: "0 \<le> fst (bounded 20 r') \<and> fst (bounded 20 r') \<le> 24"
    if "rng_draws r' = rng_draws r" for r'
    using bounded_range [of r' 20] assms(1) that by (simp add: generator_draws_def)
  have mx: "0 \<le> mx" using assms by simp
  have hi: "\<bar>mx * (1.10 + real_of_int (fst (bounded 20 r')) / 100)\<bar> \<le> mx * (7 / 5)"
    if "rng_draws r' = rng_draws r" for r'
  proof -
    have "\<bar>mx * (1.10 + real_of_int (fst (bounded 20 r')) / 100)\<bar> \<le> mx * (1.10 + 6 / 25)"
      using exceed_high [OF mx, of "fst (bounded 20 r')" "1.10"] k [OF that] by simp
    also have "\<dots> \<le> mx * (7 / 5)" using mx by simp
    finally show ?thesis .
  qed
  have lo: "\<bar>mn * (0.90 - real_of_int (fst (bounded 20 r')) / 100)\<bar> \<le> mx * (7 / 5)"
    if "rng_draws r' = rng_draws r" for r'
  proof -
    have "\<bar>mn * (0.90 - real_of_int (fst (bounded 20 r')) / 100)\<bar> \<le> mn * 0.90"
      using exceed_low [OF assms(2), of "fst (bounded 20 r')" "0.90"] k [OF that] by simp
    also have "\<dots> \<le> mx * (7 / 5)" using assms by simp
    finally show ?thesis .
  qed
  show ?thesis
    using hi [of "snd (bounded 100 (snd (bounded 100 r)))"]
      lo [of "snd (bounded 100 (snd (bounded 100 r)))"]
    by (simp add: generateExtremeValue_def Let_def split_def draws_kept le_max_iff_disj)
qed


lemma extreme_within:
  assumes "generator_draws r" "0 \<le> mn" "mn \<le> mx" "\<bar>b\<bar> \<le> B" "mx * (7 / 5) \<le> B"
  shows "\<bar>fst (generateCriticalExtremeValue b mn mx c r)\<bar> \<le> B"
    and "\<bar>fst (generateExtremeValue b mn mx c r)\<bar> \<le> B"
  using generateCriticalExtremeValue_bound [OF assms(1-3), of b c]
    generateExtremeValue_bound [OF assms(1-3), of b c] assms(4,5)
  by linarith+

lemma qRound_range: "\<bar>x\<bar> \<le> real_of_int n \<Longrightarrow> \<bar>qRound x\<bar> \<le> n"
proof (cases "0 \<le> x")
  case True
  assume a: "\<bar>x\<bar> \<le> real_of_int n"
  have "\<lfloor>x + 1 / 2\<rfloor> \<le> n" using a True by (simp add: floor_le_iff)
  moreover have "0 \<le> \<lfloor>x + 1 / 2\<rfloor>" using True by simp
  ultimately show ?thesis using True by (simp add: qRound_def)
next
  case False
  assume a: "\<bar>x\<bar> \<le> real_of_int n"
  have "- n \<le> \<lceil>x - 1 / 2\<rceil>" using a False by (simp add: le_ceiling_iff)
  moreover have "\<lceil>x - 1 / 2\<rceil> \<le> 0" using False by (simp add: ceiling_le_iff)
  ultimately show ?thesis using False by (simp add: qRound_def)
qed

lemma sample_range:
  assumes "generator_draws r" "\<bar>x\<bar> \<le> B" "0 \<le> pct" "pct \<le> 1" "B * (1 + pct) \<le> real_of_int n"
  shows "\<bar>qRound (fst (addVariation x pct r))\<bar> \<le> n"
proof -
  have "\<bar>fst (addVariation x pct r)\<bar> \<le> \<bar>x\<bar> * (1 + pct)"
    by (rule addVariation_bound [OF assms(1,3,4)])
  also have "\<dots> \<le> B * (1 + pct)" using assms(2,3) by (simp add: mult_right_mono)
  finally show ?thesis using assms(5) by (intro qRound_range) simp
qed

lemma order_and_mean_range:
  assumes "\<bar>s0\<bar> \<le> n" "\<bar>d0\<bar> \<le> n" "0 \<le> k"
  shows "bp_triple_within (n + k)
           (let s = (if s0 \<le> d0 then d0 + k else s0)
            in (s, d0, qRound (real_of_int d0 + real_of_int (s - d0) / 3.0)))"
proof -
  define s where "s = (if s0 \<le> d0 then d0 + k else s0)"
  have s: "\<bar>s\<bar> \<le> n + k" and d: "\<bar>d0\<bar> \<le> n + k" using assms by (auto simp: s_def)
  have "\<bar>(2 * d0 + s + 1) div 3\<bar> \<le> n + k" using s d by (simp add: abs_le_iff) linarith
  then have m: "\<bar>qRound (real_of_int d0 + real_of_int (s - d0) / 3.0)\<bar> \<le> n + k"
    unfolding mean_eq .
  show ?thesis
    unfolding Let_def s_def [symmetric] bp_triple_within_def prod.case
    using s d m by (intro conjI)
qed

lemma draws_kept_blocks:
  "rng_draws (snd (gen_heartRate c h r)) = rng_draws r"
  "rng_draws (snd (gen_respirationRate c v h hr r)) = rng_draws r"
  "rng_draws (snd (gen_spo2 c v h hr r)) = rng_draws r"
  "rng_draws (snd (gen_nibp c a b h hr r)) = rng_draws r"
  "rng_draws (snd (gen_ibp1 c i j r)) = rng_draws r"
  by (simp_all add: gen_heartRate_def gen_respirationRate_def gen_spo2_def gen_nibp_def
      gen_ibp1_def Let_def split_def draws_kept draws_kept_extreme)


lemma gen_nibp_range:
  assumes "generator_draws r" "\<bar>a\<bar> \<le> 8388608" "\<bar>b\<bar> \<le> 8388608"
  shows "bp_triple_within 8640288 (fst (gen_nibp c a b h hr r))"
proof -
  define f1 :: real where "f1 = (if real_of_int hr > h then 0.5 else - 0.3)"
  define f2 :: real where "f2 = (if real_of_int hr > h then - 0.3 else 0.2)"
  define x where "x = generateCriticalExtremeValue (a + f1) 90 140 (c + 11) r"
  define y where "y = generateCriticalExtremeValue (b + f2) 60 90 (c + 13) (snd x)"
  define vs where "vs = addVariation (fst x) 0.03 (snd y)"
  define vd where "vd = addVariation (fst y) 0.03 (snd vs)"
  define s0 where "s0 = qRound (fst vs)"
  define d0 where "d0 = qRound (fst vd)"
  have eq: "fst (gen_nibp c a b h hr r) =
      (let s = (if s0 \<le> d0 then d0 + 20 else s0)
       in (s, d0, qRound (real_of_int d0 + real_of_int (s - d0) / 3.0)))"
    by (simp add: gen_nibp_def Let_def split_def s0_def d0_def vs_def vd_def x_def y_def
        f1_def f2_def)
  have g: "generator_draws (snd x)" "generator_draws (snd y)" "generator_draws (snd vs)"
    using assms(1)
    by (simp_all add: generator_draws_def x_def y_def vs_def draws_kept draws_kept_extreme)
  have f: "\<bar>f1\<bar> \<le> 1 / 2" "\<bar>f2\<bar> \<le> 1 / 2" by (simp_all add: f1_def f2_def)
  have ab: "\<bar>a + f1\<bar> \<le> 8388609" "\<bar>b + f2\<bar> \<le> 8388609"
    using assms(2,3) f by linarith+
  have bx: "\<bar>fst x\<bar> \<le> 8388609"
    unfolding x_def by (rule extreme_within(1) [OF assms(1) _ _ ab(1)]) simp_all
  have bd: "\<bar>fst y\<bar> \<le> 8388609"
    unfolding y_def by (rule extreme_within(1) [OF g(1) _ _ ab(2)]) simp_all
  have s0: "\<bar>s0\<bar> \<le> 8640268"
    unfolding s0_def vs_def by (rule sample_range [OF g(2) bx]) simp_all
  have d0: "\<bar>d0\<bar> \<le> 8640268"
    unfolding d0_def vd_def by (rule sample_range [OF g(3) bd]) simp_all
  show ?thesis unfolding eq using order_and_mean_range [OF s0 d0, of 20] by simp
qed

lemma gen_ibp1_range:
  assumes "generator_draws r" "\<bar>i\<bar> \<le> 8640288" "\<bar>j\<bar> \<le> 8640288"
  shows "bp_triple_within 8813119 (fst (gen_ibp1 c i j r))"
proof -
  define x where "x = generateExtremeValue (real_of_int (i + 5)) 90 140 (c + 17) r"
  define y where "y = generateExtremeValue (real_of_int (j - 2)) 60 90 (c + 19) (snd x)"
  define vs where "vs = addVariation (fst x) 0.02 (snd y)"
  define vd where "vd = addVariation (fst y) 0.02 (snd vs)"
  define s0 where "s0 = qRound (fst vs)"
  define d0 where "d0 = qRound (fst vd)"
  have eq: "fst (gen_ibp1 c i j r) =
      (let s = (if s0 \<le> d0 then d0 + 20 else s0)
       in (s, d0, qRound (real_of_int d0 + real_of_int (s - d0) / 3.0)))"
    by (simp add: gen_ibp1_def Let_def split_def s0_def d0_def vs_def vd_def x_def y_def)
  have g: "generator_draws (snd x)" "generator_draws (snd y)" "generator_draws (snd vs)"
    using assms(1)
    by (simp_all add: generator_draws_def x_def y_def vs_def draws_kept draws_kept_extreme)
  have ab: "\<bar>real_of_int (i + 5)\<bar> \<le> 8640293" "\<bar>real_of_int (j - 2)\<bar> \<le> 8640293"
    using assms(2,3) by linarith+
  have bx: "\<bar>fst x\<bar> \<le> 8640293"
    unfolding x_def by (rule extreme_within(2) [OF assms(1) _ _ ab(1)]) simp_all
  have bd: "\<bar>fst y\<bar> \<le> 8640293"
    unfolding y_def by (rule extreme_within(2) [OF g(1) _ _ ab(2)]) simp_all
  have s0: "\<bar>s0\<bar> \<le> 8813099"
    unfolding s0_def vs_def by (rule sample_range [OF g(2) bx]) simp_all
  have d0: "\<bar>d0\<bar> \<le> 8813099"
    unfolding d0_def vd_def by (rule sample_range [OF g(3) bd]) simp_all
  show ?thesis unfolding eq using order_and_mean_range [OF s0 d0, of 20] by simp
qed

lemma gen_ibp2_range:
  assumes "generator_draws r" "\<bar>a\<bar> \<le> 8388608" "\<bar>b\<bar> \<le> 8388608"
  shows "bp_triple_within 9059701 (fst (gen_ibp2 c a b r))"
proof -
  define f where "f = sin (real_of_int (c + 50) * 0.025)"
  define x where "x = generateExtremeValue (a + (f * 2)) 2 8 (c + 23) r"
  define y where "y = generateExtremeValue (b + (f * 1.5)) 2 8 (c + 29) (snd x)"
  define vs where "vs = addVariation (fst x) 0.08 (snd y)"
  define vd where "vd = addVariation (fst y) 0.08 (snd vs)"
  define s0 where "s0 = qRound (fst vs)"
  define d0 where "d0 = qRound (fst vd)"
  have eq: "fst (gen_ibp2 c a b r) =
      (let s = (if s0 \<le> d0 then d0 + 2 else s0)
       in (s, d0, qRound (real_of_int d0 + real_of_int (s - d0) / 3.0)))"
    by (simp add: gen_ibp2_def Let_def split_def s0_def d0_def vs_def vd_def x_def y_def f_def)
  have g: "generator_draws (snd x)" "generator_draws (snd y)" "generator_draws (snd vs)"
    using assms(1)
    by (simp_all add: generator_draws_def x_def y_def vs_def draws_kept draws_kept_extreme)
  have f: "\<bar>f\<bar> \<le> 1" by (simp add: f_def)
  have ab: "\<bar>a + (f * 2)\<bar> \<le> 8388610" "\<bar>b + (f * 1.5)\<bar> \<le> 8388610"
    using assms(2,3) f by linarith+
  have bx: "\<bar>fst x\<bar> \<le> 8388610"
    unfolding x_def by (rule extreme_within(2) [OF assms(1) _ _ ab(1)]) simp_all
  have bd: "\<bar>fst y\<bar> \<le> 8388610"
    unfolding y_def by (rule extreme_within(2) [OF g(1) _ _ ab(2)]) simp_all
  have s0: "\<bar>s0\<bar> \<le> 9059699"
    unfolding s0_def vs_def by (rule sample_range [OF g(2) bx]) simp_all
  have d0: "\<bar>d0\<bar> \<le> 9059699"
    unfolding d0_def vd_def by (rule sample_range [OF g(3) bd]) simp_all
  show ?thesis unfolding eq using order_and_mean_range [OF s0 d0, of 2] by simp
qed


lemma draws_kept_blocks2:
  "rng_draws (snd (gen_ibp2 c a b r)) = rng_draws r"
  "rng_draws (snd (gen_temperature c t r)) = rng_draws r"
  "rng_draws (snd (gen_temperature2 c t hr r)) = rng_draws r"
  "rng_draws (snd (gen_etco2 c v rr r)) = rng_draws r"
  by (simp_all add: gen_ibp2_def gen_temperature_def gen_temperature2_def gen_etco2_def
      Let_def split_def draws_kept draws_kept_extreme)

lemma gen_heartRate_range:
  assumes "generator_draws r" "\<bar>h\<bar> \<le> 8388608"
  shows "\<bar>fst (gen_heartRate c h r)\<bar> \<le> 8556384"
proof -
  define f where "f = sin (real_of_int c * 0.005) * 3.0"
  define x where "x = generateCriticalExtremeValue (h + f) 40 150 c r"
  have eq: "fst (gen_heartRate c h r) = qRound (fst (addVariation (fst x) 0.02 (snd x)))"
    by (simp add: gen_heartRate_def Let_def split_def x_def f_def)
  have g: "generator_draws (snd x)"
    using assms(1) by (simp add: generator_draws_def x_def draws_kept_extreme)
  have "\<bar>sin (real_of_int c * 0.005)\<bar> \<le> 1" by simp
  then have "\<bar>f\<bar> \<le> 3" unfolding f_def by linarith
  then have ab: "\<bar>h + f\<bar> \<le> 8388611" using assms(2) by linarith
  have bx: "\<bar>fst x\<bar> \<le> 8388611"
    unfolding x_def by (rule extreme_within(1) [OF assms(1) _ _ ab]) simp_all
  show ?thesis unfolding eq by (rule sample_range [OF g bx]) simp_all
qed

lemma gen_respirationRate_range:
  assumes "generator_draws r" "\<bar>v\<bar> \<le> 8388608"
  shows "\<bar>fst (gen_respirationRate c v h hr r)\<bar> \<le> 8640268"
proof -
  define f :: real where "f = (if real_of_int hr > h then 0.2 else - 0.2)"
  define x where "x = generateExtremeValue (v + f) 8 30 (c + 3) r"
  have eq: "fst (gen_respirationRate c v h hr r) =
              qRound (fst (addVariation (fst x) 0.03 (snd x)))"
    by (simp add: gen_respirationRate_def Let_def split_def x_def f_def)
  have g: "generator_draws (snd x)"
    using assms(1) by (simp add: generator_draws_def x_def draws_kept_extreme)
  have "\<bar>f\<bar> \<le> 1" by (simp add: f_def)
  then have ab: "\<bar>v + f\<bar> \<le> 8388609" using assms(2) by linarith
  have bx: "\<bar>fst x\<bar> \<le> 8388609"
    unfolding x_def by (rule extreme_within(2) [OF assms(1) _ _ ab]) simp_all
  show ?thesis unfolding eq by (rule sample_range [OF g bx]) simp_all
qed

lemma gen_spo2_range:
  assumes "generator_draws r" "\<bar>v\<bar> \<le> 8388608"
  shows "\<bar>fst (gen_spo2 c v h hr r)\<bar> \<le> 8472496"
proof -
  define f :: real where "f = (if real_of_int hr > h + 10 then - 0.2 else 0.1)"
  define x where "x = generateCriticalExtremeValue (v + f) 94 100 (c + 7) r"
  define z where "z =
            (if c mod 30 = 0 then
               (let (a, ra) = bounded 100 (snd x) in
                if a < 25 then (let (b, rb) = bounded 16 ra in (70.0 + real_of_int b, rb))
                else (fst x, ra))
             else (fst x, snd x))"
  have eq: "fst (gen_spo2 c v h hr r) =
              min (qRound (fst (addVariation (fst z) 0.01 (snd z)))) 100"
    by (simp add: gen_spo2_def Let_def split_def x_def f_def z_def)
  have gx: "generator_draws (snd x)"
    using assms(1) by (simp add: generator_draws_def x_def draws_kept_extreme)
  have g: "generator_draws (snd z)"
    using gx by (simp add: generator_draws_def z_def Let_def split_def draws_kept)
  have "\<bar>f\<bar> \<le> 1" by (simp add: f_def)
  then have ab: "\<bar>v + f\<bar> \<le> 8388609" using assms(2) by linarith
  have bx: "\<bar>fst x\<bar> \<le> 8388609"
    unfolding x_def by (rule extreme_within(1) [OF assms(1) _ _ ab]) simp_all
  have k: "0 \<le> fst (bounded 16 (snd (bounded 100 (snd x))))"
    "fst (bounded 16 (snd (bounded 100 (snd x)))) \<le> 15"
    using bounded_range [of "snd (bounded 100 (snd x))" 16] gx
    by (simp_all add: generator_draws_def draws_kept)
  have bz: "\<bar>fst z\<bar> \<le> 8388609"
    using bx k by (simp add: z_def Let_def split_def)
  have "\<bar>qRound (fst (addVariation (fst z) 0.01 (snd z)))\<bar> \<le> 8472496"
    by (rule sample_range [OF g bz]) simp_all
  then show ?thesis unfolding eq by linarith
qed

lemma etco2Factor_range:
  assumes "\<bar>rr\<bar> \<le> 8640268"
  shows "\<bar>if rr > 20 then - 0.2 * real_of_int (rr - 20)
          else if rr < 10 then 0.3 * real_of_int (10 - rr) else 0\<bar> \<le> (2592084 :: real)"
proof -
  have hi: "\<bar>- 0.2 * real_of_int (rr - 20)\<bar> \<le> (2592084 :: real)" if "rr > 20"
  proof -
    have "0 \<le> real_of_int (rr - 20)" "real_of_int (rr - 20) \<le> 8640268"
      using that assms by linarith+
    then show ?thesis by (simp add: abs_mult)
  qed
  have lo: "\<bar>0.3 * real_of_int (10 - rr)\<bar> \<le> (2592084 :: real)" if "rr < 10"
  proof -
    have "0 \<le> real_of_int (10 - rr)" "real_of_int (10 - rr) \<le> 8640278"
      using that assms by linarith+
    then show ?thesis by (simp add: abs_mult)
  qed
  show ?thesis using hi lo by (simp only: split: if_split) simp
qed

lemma gen_etco2_range:
  assumes "generator_draws r" "\<bar>v\<bar> \<le> 8388608" "\<bar>rr\<bar> \<le> 8640268"
  shows "\<bar>fst (gen_etco2 c v rr r)\<bar> \<le> 11419920"
proof -
  define f :: real where "f =
            (if rr > 20 then - 0.2 * real_of_int (rr - 20)
             else if rr < 10 then 0.3 * real_of_int (10 - rr)
             else 0)"
  define x where "x = generateExtremeValue (v + f) 35 45 (c + 41) r"
  define z where "z =
            (if c mod 22 = 0 then
               (let (a, ra) = bounded 100 (snd x) in
                if a < 35 then
                  (let (b, rb) = bounded 100 ra in
                   if b < 50 then (let (k, rk) = bounded 31 rb in (real_of_int (50 + k), rk))
                   else (let (k, rk) = bounded 16 rb in (real_of_int (15 + k), rk)))
                else (fst x, ra))
             else (fst x, snd x))"
  have eq: "fst (gen_etco2 c v rr r) = qRound (fst (addVariation (fst z) 0.04 (snd z)))"
    by (simp add: gen_etco2_def Let_def split_def x_def f_def z_def)
  have gx: "generator_draws (snd x)"
    using assms(1) by (simp add: generator_draws_def x_def draws_kept_extreme)
  have g: "generator_draws (snd z)"
    using gx by (simp add: generator_draws_def z_def Let_def split_def draws_kept)
  have "\<bar>f\<bar> \<le> 2592084" unfolding f_def by (rule etco2Factor_range [OF assms(3)])
  then have ab: "\<bar>v + f\<bar> \<le> 10980692" using assms(2) by linarith
  have bx: "\<bar>fst x\<bar> \<le> 10980692"
    unfolding x_def by (rule extreme_within(2) [OF assms(1) _ _ ab]) simp_all
  let ?rb = "snd (bounded 100 (snd (bounded 100 (snd x))))"
  have grb: "generator_draws ?rb" using gx by (simp add: generator_draws_def draws_kept)
  have k: "0 \<le> fst (bounded 31 ?rb)" "fst (bounded 31 ?rb) \<le> 30"
    "0 \<le> fst (bounded 16 ?rb)" "fst (bounded 16 ?rb) \<le> 15"
    using bounded_range [OF grb, of 31] bounded_range [OF grb, of 16] by simp_all
  have bz: "\<bar>fst z\<bar> \<le> 10980692"
    using bx k by (simp add: z_def Let_def split_def)
  show ?thesis unfolding eq by (rule sample_range [OF g bz]) simp_all
qed


lemma synthesize_ints_range:
  assumes "baselines_in_range p"
  shows "\<bar>pv_heartRate (fst (synthesize c p (dp_random p)))\<bar> \<le> 16777216"
    and "\<bar>pv_respirationRate (fst (synthesize c p (dp_random p)))\<bar> \<le> 16777216"
    and "\<bar>pv_spo2 (fst (synthesize c p (dp_random p)))\<bar> \<le> 16777216"
    and "\<bar>pv_etco2 (fst (synthesize c p (dp_random p)))\<bar> \<le> 16777216"
proof -
  let ?h = "dp_heart_rate p"
  define r1 where "r1 = gen_heartRate c ?h (dp_random p)"
  define r2 where "r2 = gen_respirationRate c (dp_respiration_rate p) ?h (fst r1) (snd r1)"
  define r3 where "r3 = gen_spo2 c (dp_spo2 p) ?h (fst r1) (snd r2)"
  define r4 where "r4 = gen_nibp c (dp_systolic_bp p) (dp_diastolic_bp p) ?h (fst r1) (snd r3)"
  define r5 where "r5 = gen_ibp1 c (fst (fst r4)) (fst (snd (fst r4))) (snd r4)"
  define r6 where "r6 = gen_ibp2 c (dp_ibp2_systolic p) (dp_ibp2_diastolic p) (snd r5)"
  define r7 where "r7 = gen_temperature c (dp_temperature p) (snd r6)"
  define r8 where "r8 = gen_temperature2 c (dp_temperature2 p) (fst r1) (snd r7)"
  define r9 where "r9 = gen_etco2 c (dp_etco2 p) (fst r2) (snd r8)"
  have v: "pv_heartRate (fst (synthesize c p (dp_random p))) = fst r1"
    "pv_respirationRate (fst (synthesize c p (dp_random p))) = fst r2"
    "pv_spo2 (fst (synthesize c p (dp_random p))) = fst r3"
    "pv_etco2 (fst (synthesize c p (dp_random p))) = fst r9"
    by (simp_all add: synthesize_def Let_def split_def r1_def r2_def r3_def r4_def r5_def
        r6_def r7_def r8_def r9_def)
  have b: "\<bar>dp_heart_rate p\<bar> \<le> 8388608" "\<bar>dp_respiration_rate p\<bar> \<le> 8388608"
    "\<bar>dp_spo2 p\<bar> \<le> 8388608" "\<bar>dp_etco2 p\<bar> \<le> 8388608" "generator_draws (dp_random p)"
    using assms by (simp_all add: baselines_in_range_def)
  have g: "generator_draws (snd r1)" "generator_draws (snd r2)" "generator_draws (snd r8)"
    using b(5)
    by (simp_all add: generator_draws_def r1_def r2_def r3_def r4_def r5_def r6_def r7_def
        r8_def draws_kept_blocks draws_kept_blocks2)
  have h1: "\<bar>fst r1\<bar> \<le> 8556384" unfolding r1_def by (rule gen_heartRate_range [OF b(5,1)])
  have h2: "\<bar>fst r2\<bar> \<le> 8640268"
    unfolding r2_def by (rule gen_respirationRate_range [OF g(1) b(2)])
  have h3: "\<bar>fst r3\<bar> \<le> 8472496" unfolding r3_def by (rule gen_spo2_range [OF g(2) b(3)])
  have h9: "\<bar>fst r9\<bar> \<le> 11419920"
    unfolding r9_def by (rule gen_etco2_range [OF g(3) b(4) h2])
  show "\<bar>pv_heartRate (fst (synthesize c p (dp_random p)))\<bar> \<le> 16777216"
    unfolding v using h1 by linarith
  show "\<bar>pv_respirationRate (fst (synthesize c p (dp_random p)))\<bar> \<le> 16777216"
    unfolding v using h2 by linarith
  show "\<bar>pv_spo2 (fst (synthesize c p (dp_random p)))\<bar> \<le> 16777216"
    unfolding v using h3 by linarith
  show "\<bar>pv_etco2 (fst (synthesize c p (dp_random p)))\<bar> \<le> 16777216"
    unfolding v using h9 by linarith
qed

lemma bp_triple_within_mono: "bp_triple_within n t \<Longrightarrow> n \<le> m \<Longrightarrow> bp_triple_within m t"
  by (auto simp: bp_triple_within_def)

lemma synthesize_bp_range:
  assumes "baselines_in_range p"
  shows "bp_triple_within 16777216 (pv_nibp (fst (synthesize c p (dp_random p))))"
    and "bp_triple_within 16777216 (pv_ibp1 (fst (synthesize c p (dp_random p))))"
    and "bp_triple_within 16777216 (pv_ibp2 (fst (synthesize c p (dp_random p))))"
proof -
  let ?h = "dp_heart_rate p"
  define r1 where "r1 = gen_heartRate c ?h (dp_random p)"
  define r2 where "r2 = gen_respirationRate c (dp_respiration_rate p) ?h (fst r1) (snd r1)"
  define r3 where "r3 = gen_spo2 c (dp_spo2 p) ?h (fst r1) (snd r2)"
  define r4 where "r4 = gen_nibp c (dp_systolic_bp p) (dp_diastolic_bp p) ?h (fst r1) (snd r3)"
  define r5 where "r5 = gen_ibp1 c (fst (fst r4)) (fst (snd (fst r4))) (snd r4)"
  define r6 where "r6 = gen_ibp2 c (dp_ibp2_systolic p) (dp_ibp2_diastolic p) (snd r5)"
  have v: "pv_nibp (fst (synthesize c p (dp_random p))) = fst r4"
    "pv_ibp1 (fst (synthesize c p (dp_random p))) = fst r5"
    "pv_ibp2 (fst (synthesize c p (dp_random p))) = fst r6"
    by (simp_all add: synthesize_def Let_def split_def r1_def r2_def r3_def r4_def r5_def r6_def)
  have b: "\<bar>dp_systolic_bp p\<bar> \<le> 8388608" "\<bar>dp_diastolic_bp p\<bar> \<le> 8388608"
    "\<bar>dp_ibp2_systolic p\<bar> \<le> 8388608" "\<bar>dp_ibp2_diastolic p\<bar> \<le> 8388608"
    "generator_draws (dp_random p)"
    using assms by (simp_all add: baselines_in_range_def)
  have g: "generator_draws (snd r3)" "generator_draws (snd r4)" "generator_draws (snd r5)"
    using b(5)
    by (simp_all add: generator_draws_def r1_def r2_def r3_def r4_def r5_def draws_kept_blocks)
  have n: "bp_triple_within 8640288 (fst r4)"
    unfolding r4_def by (rule gen_nibp_range [OF g(1) b(1,2)])
  then have "\<bar>fst (fst r4)\<bar> \<le> 8640288" "\<bar>fst (snd (fst r4))\<bar> \<le> 8640288"
    by (simp_all add: bp_triple_within_def split_def)
  then have i1: "bp_triple_within 8813119 (fst r5)"
    unfolding r5_def by (rule gen_ibp1_range [OF g(2)])
  have i2: "bp_triple_within 9059701 (fst r6)"
    unfolding r6_def by (rule gen_ibp2_range [OF g(3) b(3,4)])
  show "bp_triple_within 16777216 (pv_nibp (fst (synthesize c p (dp_random p))))"
    unfolding v by (rule bp_triple_within_mono [OF n]) simp
  show "bp_triple_within 16777216 (pv_ibp1 (fst (synthesize c p (dp_random p))))"
    unfolding v by (rule bp_triple_within_mono [OF i1]) simp
  show "bp_triple_within 16777216 (pv_ibp2 (fst (synthesize c p (dp_random p))))"
    unfolding v by (rule bp_triple_within_mono [OF i2]) simp
qed

lemma bp_triple_withinD:
  assumes "bp_triple_within n t"
  shows "\<bar>real_of_int (fst t)\<bar> \<le> real_of_int n"
    and "\<bar>real_of_int (fst (snd t))\<bar> \<le> real_of_int n"
    and "\<bar>real_of_int (snd (snd t))\<bar> \<le> real_of_int n"
  using assms by (auto simp: bp_triple_within_def split_def abs_le_iff)

subsection \<open>One tick of the fixtures\<close>

lemma sin_small: "0 \<le> sin (1 / 200 :: real)" "sin (1 / 200 :: real) \<le> 1 / 200"
proof -
  have "(1 / 200 :: real) \<le> pi" using pi_ge_two by linarith
  then show "0 \<le> sin (1 / 200 :: real)" by (intro sin_ge_zero) auto
  show "sin (1 / 200 :: real) \<le> 1 / 200" by (intro sin_x_le_x) auto
qed

lemma qRound_hr: "qRound (70 + sin (1 / 200) * 3) = 70"
proof -
  have "\<lfloor>70 + sin (1 / 200 :: real) * 3 + 0.5\<rfloor> = 70"
    using sin_small by (intro floor_unique) auto
  then show ?thesis using sin_small by (simp add: qRound_def)
qed

lemma draw_half:
  "rng_draws r (rng_pos r) = 1 / 2 \<Longrightarrow>
   addVariation b pct r = (b, r\<lparr>rng_pos := Suc (rng_pos r)\<rparr>)"
  by (simp add: addVariation_def generateDouble_def Let_def)

lemma half_step: "rng_draws half_draws k = 1 / 2" "rng_pos half_draws = 0"
  by (simp_all add: half_draws_def)

lemma heartRate_first_tick:
  "gen_heartRate 1 70 half_draws = (70, half_draws\<lparr>rng_pos := Suc 0\<rparr>)"
  by (simp add: gen_heartRate_def generateCriticalExtremeValue_def Let_def draw_half
      half_step qRound_hr)

lemma respirationRate_first_tick:
  "gen_respirationRate 1 15 70 70 (half_draws\<lparr>rng_pos := k\<rparr>) =
     (15, half_draws\<lparr>rng_pos := Suc k\<rparr>)"
  by (simp add: gen_respirationRate_def generateExtremeValue_def Let_def draw_half half_step
      qRound_def)

lemma spo2_first_tick:
  "gen_spo2 1 98 70 70 (half_draws\<lparr>rng_pos := k\<rparr>) = (98, half_draws\<lparr>rng_pos := Suc k\<rparr>)"
  by (simp add: gen_spo2_def generateCriticalExtremeValue_def Let_def draw_half half_step
      qRound_def)

lemma nibp_first_tick_narrow:
  "gen_nibp 1 101 90 70 70 (half_draws\<lparr>rng_pos := k\<rparr>) =
     ((101, 90, 94), half_draws\<lparr>rng_pos := Suc (Suc k)\<rparr>)"
  by (simp add: gen_nibp_def generateCriticalExtremeValue_def Let_def draw_half half_step
      qRound_def)

lemma nibp_first_tick_default:
  "gen_nibp 1 120 80 70 70 (half_draws\<lparr>rng_pos := k\<rparr>) =
     ((120, 80, 93), half_draws\<lparr>rng_pos := Suc (Suc k)\<rparr>)"
  by (simp add: gen_nibp_def generateCriticalExtremeValue_def Let_def draw_half half_step
      qRound_def)

lemma connected_fields:
  "dp_status connected_provider = Connected" "dp_active connected_provider"
  "dp_cycleCounter connected_provider = 0" "dp_random connected_provider = half_draws"
  "dp_heart_rate connected_provider = 70" "dp_respiration_rate connected_provider = 15"
  "dp_spo2 connected_provider = 98" "dp_systolic_bp connected_provider = 120"
  "dp_diastolic_bp connected_provider = 80"
  by (simp_all add: connected_provider_def new_DemoDataProvider_def GetProviderConfig_def
      new_ConfigManager_def or_default_def Let_def split_def start_def
      connection_completed_def)

lemma narrow_fields:
  "dp_status narrow_provider = Connected" "dp_active narrow_provider"
  "dp_cycleCounter narrow_provider = 0" "dp_random narrow_provider = half_draws"
  "dp_heart_rate narrow_provider = 70" "dp_respiration_rate narrow_provider = 15"
  "dp_spo2 narrow_provider = 98" "dp_systolic_bp narrow_provider = 101"
  "dp_diastolic_bp narrow_provider = 90"
  by (simp_all add: narrow_provider_def new_DemoDataProvider_def GetProviderConfig_def
      new_ConfigManager_def or_default_def Let_def start_def connection_completed_def
      configure_def narrow_config_def empty_ProviderConfig_def split_def)

lemma connected_in_range: "baselines_in_range connected_provider"
  by (simp add: baselines_in_range_def generator_draws_def half_draws_def
      connected_provider_def new_DemoDataProvider_def GetProviderConfig_def
      new_ConfigManager_def or_default_def Let_def split_def start_def
      connection_completed_def)

lemma narrow_in_range: "baselines_in_range narrow_provider"
  by (simp add: baselines_in_range_def generator_draws_def half_draws_def
      narrow_provider_def new_DemoDataProvider_def GetProviderConfig_def
      new_ConfigManager_def or_default_def Let_def start_def connection_completed_def
      configure_def narrow_config_def empty_ProviderConfig_def split_def)

lemma take6_parameter_signals:
  "take 6 (parameter_signals t v) =
     [parameterDataReceived HR t (real_of_int (pv_heartRate v)),
      parameterDataReceived RR t (real_of_int (pv_respirationRate v)),
      parameterDataReceived SPO2 t (real_of_int (pv_spo2 v)),
      parameterDataReceived NIBP_SYS t (real_of_int (fst (pv_nibp v))),
      parameterDataReceived NIBP_DIA t (real_of_int (fst (snd (pv_nibp v)))),
      parameterDataReceived NIBP_MAP t (real_of_int (snd (snd (pv_nibp v))))]"
  by (simp add: parameter_signals_def)

lemma synthesize_narrow:
  "pv_heartRate (fst (synthesize 1 narrow_provider half_draws)) = 70"
  "pv_respirationRate (fst (synthesize 1 narrow_provider half_draws)) = 15"
  "pv_spo2 (fst (synthesize 1 narrow_provider half_draws)) = 98"
  "pv_nibp (fst (synthesize 1 narrow_provider half_draws)) = (101, 90, 94)"
  by (simp_all add: synthesize_def Let_def split_def narrow_fields heartRate_first_tick
      respirationRate_first_tick spo2_first_tick nibp_first_tick_narrow)

lemma synthesize_default:
  "pv_heartRate (fst (synthesize 1 connected_provider half_draws)) = 70"
  "pv_respirationRate (fst (synthesize 1 connected_provider half_draws)) = 15"
  "pv_spo2 (fst (synthesize 1 connected_provider half_draws)) = 98"
  "pv_nibp (fst (synthesize 1 connected_provider half_draws)) = (120, 80, 93)"
  by (simp_all add: synthesize_def Let_def split_def connected_fields heartRate_first_tick
      respirationRate_first_tick spo2_first_tick nibp_first_tick_default)

lemma default_tick:
  "take 6 (tr_emitted (generateParameterData 1000 no_slots connected_provider)) =
     [parameterDataReceived HR 1000 70, parameterDataReceived RR 1000 15,
      parameterDataReceived SPO2 1000 98, parameterDataReceived NIBP_SYS 1000 120,
      parameterDataReceived NIBP_DIA 1000 80, parameterDataReceived NIBP_MAP 1000 93]"
  by (simp add: generateParameterData_emitted connected_fields take6_parameter_signals
      synthesize_default)

lemma default_tick_mem:
  "parameterDataReceived SPO2 1000 98
     \<in> set (tr_emitted (generateParameterData 1000 no_slots connected_provider))"
  "parameterDataReceived NIBP_SYS 1000 120
     \<in> set (tr_emitted (generateParameterData 1000 no_slots connected_provider))"
  "parameterDataReceived NIBP_DIA 1000 80
     \<in> set (tr_emitted (generateParameterData 1000 no_slots connected_provider))"
  "parameterDataReceived NIBP_MAP 1000 93
     \<in> set (tr_emitted (generateParameterData 1000 no_slots connected_provider))"
  using default_tick
    set_take_subset [of 6 "tr_emitted (generateParameterData 1000 no_slots connected_provider)"]
  by auto

subsection \<open>Main properties\<close>

text \<open>
  C5.  The parameter tick is wrapped: whatever the slots raise, no exception leaves
  \<open>generateParameterData\<close>.  The waveform tick is not: when the provider is active and
  the first generator function raises, \<open>generateWaveformData\<close> emits nothing, logs
  nothing, and the exception leaves the handler.
\<close>

theorem C5_waveform_tick_not_wrapped:
  "dp_active p \<Longrightarrow> generatorFunc (real_of_int elapsed / 1000.0) 3 = Inl e \<Longrightarrow>
   (let w = generateWaveformData elapsed now ((waveformId, generatorFunc) # rest) slots p;
        q = generateParameterData now slots p
    in tr_propagated w = Some e \<and> tr_log w = [] \<and> tr_emitted w = []
       \<and> tr_propagated q = None)"
  by (simp add: generateWaveformData_def Let_def generateParameterData_never_propagates)

theorem C5_waveform_tick_not_wrapped_witness:
  "dp_active connected_provider
   \<and> failing_generator (real_of_int 40 / 1000.0) 3 = Inl (std_exception ''std::bad_alloc'')
   \<and> tr_propagated (generateWaveformData 40 1000 [(ECG_I, failing_generator)] no_slots
        connected_provider) = Some (std_exception ''std::bad_alloc'')
   \<and> tr_propagated (generateParameterData 1000 failing_slots connected_provider) = None
   \<and> tr_log (generateParameterData 1000 failing_slots connected_provider) =
        [''Exception in generateParameterData: std::bad_alloc'']
   \<and> length (tr_emitted (generateParameterData 1000 failing_slots connected_provider)) = 1"
proof -
  have g: "failing_generator (real_of_int 40 / 1000.0) 3 = Inl (std_exception ''std::bad_alloc'')"
    by (simp add: failing_generator_def)
  have l: "tr_log (generateParameterData 1000 failing_slots connected_provider) =
        [''Exception in generateParameterData: std::bad_alloc'']"
    "length (tr_emitted (generateParameterData 1000 failing_slots connected_provider)) = 1"
    by (simp_all add: generateParameterData_def connected_fields Let_def split_def
        parameter_signals_def failing_slots_def)
  show ?thesis
    using C5_waveform_tick_not_wrapped
        [where p = connected_provider and generatorFunc = failing_generator
          and elapsed = 40 and e = "std_exception ''std::bad_alloc''" and now = 1000
          and waveformId = ECG_I and rest = "[]" and slots = no_slots]
      C5_waveform_tick_not_wrapped
        [where p = connected_provider and generatorFunc = failing_generator
          and elapsed = 40 and e = "std_exception ''std::bad_alloc''" and now = 1000
          and waveformId = ECG_I and rest = "[]" and slots = failing_slots]
      l g connected_fields(2)
    by (simp add: Let_def)
qed

text \<open>
  C9, as claimed, fails on the first tick of a provider configured with the baselines
  101 over 90 whose draws add no variation: the tick emits systolic 101, diastolic 90 and
  mean 94.  The systolic value is less than the diastolic value plus 20, the margin the
  source adds when it forces the order, and the mean is neither the quotient
  \<open>90 + (101 - 90) / 3\<close> nor its integer part.
\<close>

theorem C9_narrow_pulse_counterexample:
  "take 6 (tr_emitted (generateParameterData 1000 no_slots narrow_provider)) =
     [parameterDataReceived HR 1000 70, parameterDataReceived RR 1000 15,
      parameterDataReceived SPO2 1000 98, parameterDataReceived NIBP_SYS 1000 101,
      parameterDataReceived NIBP_DIA 1000 90, parameterDataReceived NIBP_MAP 1000 94]
   \<and> (101::real) < 90 + 20 \<and> (94::real) \<noteq> 90 + (101 - 90) / 3
   \<and> (94::int) \<noteq> 90 + (101 - 90) div 3"
  by (simp add: generateParameterData_emitted narrow_fields take6_parameter_signals
      synthesize_narrow)

text \<open>
  C9, amended.  Take a provider whose baselines are in range (\<open>baselines_in_range\<close>:
  within \<open>\<plusminus>2\<^sup>2\<^sup>3\<close>, with the cycle counter below \<open>2\<^sup>3\<^sup>0\<close> and draws from the unit
  interval), so that the \<open>int\<close> arithmetic of the tick does not overflow.  On every
  parameter tick, for each blood-pressure group (NIBP, IBP1, IBP2/CVP): when the systolic
  and the diastolic value are emitted, the systolic value is at least the diastolic value
  plus 1 and both lie within \<open>\<plusminus>2\<^sup>2\<^sup>4\<close> (16777216), where the \<open>float\<close> parameter of the
  signal carries them exactly; and when the mean is emitted too, it is
  \<open>diastolic + (systolic - diastolic) / 3\<close> rounded to the nearest integer by \<open>qRound\<close>,
  computed from the same tick's emitted systolic and diastolic values, so it differs
  from the unrounded quotient by at most one third, and it lies within \<open>\<plusminus>2\<^sup>2\<^sup>4\<close> too.
\<close>

theorem C9_bp_groups_ordered_and_rounded_mean:
  assumes "baselines_in_range p"
  shows "\<forall>(SYS, DIA, MAP) \<in> set bp_groups. \<forall>ts s d.
      parameterDataReceived SYS ts s \<in> set (tr_emitted (generateParameterData now slots p)) \<and>
      parameterDataReceived DIA ts d \<in> set (tr_emitted (generateParameterData now slots p))
      \<longrightarrow> d + 1 \<le> s \<and> \<bar>s\<bar> \<le> 16777216 \<and> \<bar>d\<bar> \<le> 16777216 \<and>
          (\<forall>m. parameterDataReceived MAP ts m
                  \<in> set (tr_emitted (generateParameterData now slots p))
               \<longrightarrow> m = real_of_int (qRound (d + (s - d) / 3))
                   \<and> \<bar>m - (d + (s - d) / 3)\<bar> \<le> 1 / 3 \<and> \<bar>m\<bar> \<le> 16777216)"
proof -
  let ?e = "tr_emitted (generateParameterData now slots p)"
  let ?v = "fst (synthesize (dp_cycleCounter p + 1) p (dp_random p))"
  have sub: "set ?e \<subseteq> set (parameter_signals now ?v)" by (rule emitted_subset)
  have grp: "d + 1 \<le> s \<and> \<bar>s\<bar> \<le> 16777216 \<and> \<bar>d\<bar> \<le> 16777216 \<and>
          (\<forall>m. parameterDataReceived MAP ts m \<in> set ?e
               \<longrightarrow> m = real_of_int (qRound (d + (s - d) / 3))
                   \<and> \<bar>m - (d + (s - d) / 3)\<bar> \<le> 1 / 3 \<and> \<bar>m\<bar> \<le> 16777216)"
    if ok: "bp_triple_ok t" and rg: "bp_triple_within 16777216 t"
      and S: "\<And>ts x. parameterDataReceived SYS ts x \<in> set (parameter_signals now ?v)
                \<Longrightarrow> x = real_of_int (fst t)"
      and D: "\<And>ts x. parameterDataReceived DIA ts x \<in> set (parameter_signals now ?v)
                \<Longrightarrow> x = real_of_int (fst (snd t))"
      and M: "\<And>ts x. parameterDataReceived MAP ts x \<in> set (parameter_signals now ?v)
                \<Longrightarrow> x = real_of_int (snd (snd t))"
      and s: "parameterDataReceived SYS ts s \<in> set ?e"
      and d: "parameterDataReceived DIA ts d \<in> set ?e"
    for SYS DIA MAP t ts s d
  proof -
    have s': "s = real_of_int (fst t)" using S s sub by blast
    have d': "d = real_of_int (fst (snd t))" using D d sub by blast
    show ?thesis
    proof (intro conjI allI impI)
      show "d + 1 \<le> s" unfolding s' d' using bp_triple_okD(1) [OF ok] .
      show "\<bar>s\<bar> \<le> 16777216" unfolding s' using bp_triple_withinD(1) [OF rg] by simp
      show "\<bar>d\<bar> \<le> 16777216" unfolding d' using bp_triple_withinD(2) [OF rg] by simp
    next
      fix m assume "parameterDataReceived MAP ts m \<in> set ?e"
      then have m': "m = real_of_int (snd (snd t))" using M sub by blast
      show "m = real_of_int (qRound (d + (s - d) / 3))"
        unfolding s' d' m' using bp_triple_okD(2) [OF ok] .
      show "\<bar>m - (d + (s - d) / 3)\<bar> \<le> 1 / 3"
        unfolding s' d' m' using bp_triple_okD(3) [OF ok] .
      show "\<bar>m\<bar> \<le> 16777216" unfolding m' using bp_triple_withinD(3) [OF rg] by simp
    qed
  qed
  note rg = synthesize_bp_range [OF assms, of "dp_cycleCounter p + 1"]
  have n: "d + 1 \<le> s \<and> \<bar>s\<bar> \<le> 16777216 \<and> \<bar>d\<bar> \<le> 16777216 \<and>
          (\<forall>m. parameterDataReceived NIBP_MAP ts m \<in> set ?e
               \<longrightarrow> m = real_of_int (qRound (d + (s - d) / 3))
                   \<and> \<bar>m - (d + (s - d) / 3)\<bar> \<le> 1 / 3 \<and> \<bar>m\<bar> \<le> 16777216)"
    if "parameterDataReceived NIBP_SYS ts s \<in> set ?e"
      "parameterDataReceived NIBP_DIA ts d \<in> set ?e"
    for ts s d
    by (rule grp [OF synthesize_bp_ok(1) rg(1) _ _ _ that])
      (auto simp: parameter_signals_def ParameterType_defs)
  have i1: "d + 1 \<le> s \<and> \<bar>s\<bar> \<le> 16777216 \<and> \<bar>d\<bar> \<le> 16777216 \<and>
          (\<forall>m. parameterDataReceived IBP1_MAP ts m \<in> set ?e
               \<longrightarrow> m = real_of_int (qRound (d + (s - d) / 3))
                   \<and> \<bar>m - (d + (s - d) / 3)\<bar> \<le> 1 / 3 \<and> \<bar>m\<bar> \<le> 16777216)"
    if "parameterDataReceived IBP1_SYS ts s \<in> set ?e"
      "parameterDataReceived IBP1_DIA ts d \<in> set ?e"
    for ts s d
    by (rule grp [OF synthesize_bp_ok(2) rg(2) _ _ _ that])
      (auto simp: parameter_signals_def ParameterType_defs)
  have i2: "d + 1 \<le> s \<and> \<bar>s\<bar> \<le> 16777216 \<and> \<bar>d\<bar> \<le> 16777216 \<and>
          (\<forall>m. parameterDataReceived IBP2_MAP ts m \<in> set ?e
               \<longrightarrow> m = real_of_int (qRound (d + (s - d) / 3))
                   \<and> \<bar>m - (d + (s - d) / 3)\<bar> \<le> 1 / 3 \<and> \<bar>m\<bar> \<le> 16777216)"
    if "parameterDataReceived IBP2_SYS ts s \<in> set ?e"
      "parameterDataReceived IBP2_DIA ts d \<in> set ?e"
    for ts s d
    by (rule grp [OF synthesize_bp_ok(3) rg(3) _ _ _ that])
      (auto simp: parameter_signals_def ParameterType_defs)
  show ?thesis
    unfolding bp_groups_def
    by (simp only: list.set ball_simps prod.case simp_thms) (use n i1 i2 in blast)
qed

theorem C9_bp_groups_ordered_and_rounded_mean_witness:
  "baselines_in_range connected_provider
   \<and> parameterDataReceived NIBP_SYS 1000 120
     \<in> set (tr_emitted (generateParameterData 1000 no_slots connected_provider))
   \<and> parameterDataReceived NIBP_DIA 1000 80
     \<in> set (tr_emitted (generateParameterData 1000 no_slots connected_provider))
   \<and> parameterDataReceived NIBP_MAP 1000 93
     \<in> set (tr_emitted (generateParameterData 1000 no_slots connected_provider))
   \<and> (80::real) + 1 \<le> 120
   \<and> (93::real) = real_of_int (qRound (80 + (120 - 80) / 3))
   \<and> \<bar>(93::real) - (80 + (120 - 80) / 3)\<bar> \<le> 1 / 3
   \<and> \<bar>120::real\<bar> \<le> 16777216 \<and> \<bar>80::real\<bar> \<le> 16777216 \<and> \<bar>93::real\<bar> \<le> 16777216"
proof -
  have "(NIBP_SYS, NIBP_DIA, NIBP_MAP) \<in> set bp_groups" by (simp add: bp_groups_def)
  with C9_bp_groups_ordered_and_rounded_mean [OF connected_in_range, of 1000 no_slots]
  have "\<forall>ts s d.
      parameterDataReceived NIBP_SYS ts s
        \<in> set (tr_emitted (generateParameterData 1000 no_slots connected_provider)) \<and>
      parameterDataReceived NIBP_DIA ts d
        \<in> set (tr_emitted (generateParameterData 1000 no_slots connected_provider))
      \<longrightarrow> d + 1 \<le> s \<and> \<bar>s\<bar> \<le> 16777216 \<and> \<bar>d\<bar> \<le> 16777216 \<and>
          (\<forall>m. parameterDataReceived NIBP_MAP ts m
                  \<in> set (tr_emitted (generateParameterData 1000 no_slots connected_provider))
               \<longrightarrow> m = real_of_int (qRound (d + (s - d) / 3))
                   \<and> \<bar>m - (d + (s - d) / 3)\<bar> \<le> 1 / 3 \<and> \<bar>m\<bar> \<le> 16777216)"
    by blast
  with default_tick_mem connected_in_range show ?thesis by blast
qed

text \<open>
  C10.  On every parameter tick, every SpO2 value the generator emits is at most 100:
  the sampled value, after the critical extreme-value injection, the hypoxemia scenario
  and the natural variation, passes through \<open>min spo2 100\<close> before the emission.
\<close>

theorem C10_emitted_spo2_at_most_100:
  "\<forall>s \<in> set (tr_emitted (generateParameterData now slots p)).
     \<forall>timestamp v. s = parameterDataReceived SPO2 timestamp v \<longrightarrow> v \<le> 100"
proof (intro ballI allI impI)
  fix s timestamp v
  assume "s \<in> set (tr_emitted (generateParameterData now slots p))"
    and s: "s = parameterDataReceived SPO2 timestamp v"
  then have "s \<in> set (parameter_signals now
                (fst (synthesize (dp_cycleCounter p + 1) p (dp_random p))))"
    using emitted_subset by blast
  then have "v = real_of_int (pv_spo2 (fst (synthesize (dp_cycleCounter p + 1) p (dp_random p))))"
    unfolding s by (auto simp: parameter_signals_def ParameterType_defs)
  then show "v \<le> 100"
    using synthesize_spo2_le [of "dp_cycleCounter p + 1" p "dp_random p"] by simp
qed

theorem C10_emitted_spo2_at_most_100_witness:
  "parameterDataReceived SPO2 1000 98
     \<in> set (tr_emitted (generateParameterData 1000 no_slots connected_provider))
   \<and> (98::real) \<le> 100"
  using C10_emitted_spo2_at_most_100 [of 1000 no_slots connected_provider]
    default_tick_mem(1)
  by simp


section \<open>Properties of the routing coordinator\<close>

lemma loop_ranges:
  "map int [0 ..< 13] = [0, 1, 2, 3, 4, 5, 6, 7, 8, 9, 10, 11, 12]"
  "map int [0 ..< 18] = [0, 1, 2, 3, 4, 5, 6, 7, 8, 9, 10, 11, 12, 13, 14, 15, 16, 17]"
  by (simp_all add: upt_conv_Cons)

lemma waveform_keys:
  "dm_waveform_models dm = [] \<Longrightarrow>
   map fst (dm_waveform_models (initializeWaveformModels cm dm)) =
     [0, 1, 2, 3, 4, 5, 6, 7, 8, 9, 10, 11, 12]"
  by (simp add: initializeWaveformModels_def loop_ranges)

lemma parameter_keys:
  "dm_parameter_models dm = [] \<Longrightarrow>
   map fst (dm_parameter_models (initializeParameterModels now cm dm)) =
     [0, 1, 2, 3, 4, 5, 6, 7, 8, 9, 10, 11, 12, 13, 14, 15, 16, 17]"
  by (simp add: initializeParameterModels_def loop_ranges)

lemma initialize_models_frame:
  "dm_parameter_models (initializeWaveformModels cm dm) = dm_parameter_models dm"
  "dm_waveform_models (initializeParameterModels now cm dm) = dm_waveform_models dm"
  "dm_providers (initializeWaveformModels cm dm) = dm_providers dm"
  "dm_providers (initializeParameterModels now cm dm) = dm_providers dm"
  "dm_current_provider (initializeWaveformModels cm dm) = dm_current_provider dm"
  "dm_current_provider (initializeParameterModels now cm dm) = dm_current_provider dm"
  "dm_connected (initializeWaveformModels cm dm) = dm_connected dm"
  "dm_connected (initializeParameterModels now cm dm) = dm_connected dm"
  by (simp_all add: initializeWaveformModels_def initializeParameterModels_def loop_ranges)

lemma SetActiveProvider_models:
  "dm_waveform_models (fst (snd (SetActiveProvider n dm cm))) = dm_waveform_models dm"
  "dm_parameter_models (fst (snd (SetActiveProvider n dm cm))) = dm_parameter_models dm"
  by (auto simp: SetActiveProvider_def Let_def split_def stop_current_def
      disconnectProviderSignals_def connectProviderSignals_def split: option.splits)

lemma initialize_models:
  "map fst (dm_waveform_models (fst (snd (initialize now r new_DataManager cm)))) =
     [0, 1, 2, 3, 4, 5, 6, 7, 8, 9, 10, 11, 12]"
  "map fst (dm_parameter_models (fst (snd (initialize now r new_DataManager cm)))) =
     [0, 1, 2, 3, 4, 5, 6, 7, 8, 9, 10, 11, 12, 13, 14, 15, 16, 17]"
  by (simp_all add: initialize_def Let_def split_def SetActiveProvider_models
      initialize_models_frame waveform_keys parameter_keys registerProvider_def
      new_DataManager_def)

lemma initialized_fields:
  "dm_current_provider (fst initialized_manager) = Some ''Demo''"
  "dm_connected (fst initialized_manager) = [''Demo'']"
  "cm_lastProvider (snd initialized_manager) = Some ''Demo''"
  "map (\<lambda>(n, p). (n, dp_active p, dp_status p)) (dm_providers (fst initialized_manager)) =
     [(''Demo'', False, Disconnected)]"
  by (simp_all add: initialized_manager_def initialize_def Let_def split_def
      new_DemoDataProvider_def GetProviderConfig_def new_ConfigManager_def or_default_def
      registerProvider_def GetName_def new_DataManager_def initialize_models_frame
      GetLastProvider_def DEFAULT_PROVIDER_def SetActiveProvider_def
      connectProviderSignals_def SetLastProvider_def)

lemma running_fields:
  "dm_current_provider (fst running_manager) = Some ''Demo''"
  "dm_connected (fst running_manager) = [''Demo'']"
  "map (\<lambda>(n, p). (n, dp_active p, dp_status p)) (dm_providers (fst running_manager)) =
     [(''Demo'', True, Connected)]"
  "snd running_manager = snd initialized_manager"
  using initialized_fields
  by (auto simp add: running_manager_def Let_def split_def startAcquisition_def
      provider_connection_completed_def isActive_def start_def stop_def
      connection_completed_def split: option.splits list.splits)

text \<open>
  C6.  On a coordinator whose provider Demo is running, \<open>SetActiveProvider\<close> with the
  empty name returns true, stops the provider, detaches its signals, clears the active
  provider and emits one \<open>activeProviderChanged\<close> with the empty name; the configuration
  is left as it was, and its last-used provider is still Demo.
\<close>

theorem C6_deactivation_persists_nothing:
  "(let (dm, cm) = running_manager; (ok, dm', cm', sigs) = SetActiveProvider [] dm cm in
     map (\<lambda>(n, p). (n, dp_active p, dp_status p)) (dm_providers dm) =
       [(''Demo'', True, Connected)]
     \<and> ok \<and> sigs = [activeProviderChanged []]
     \<and> dm_current_provider dm' = None \<and> dm_connected dm' = []
     \<and> map (\<lambda>(n, p). (n, dp_active p, dp_status p)) (dm_providers dm') =
         [(''Demo'', False, Disconnected)]
     \<and> cm' = cm \<and> GetLastProvider cm' = ''Demo'')"
  using running_fields initialized_fields
  by (auto simp add: Let_def split_def SetActiveProvider_def saveCurrentProviderToSettings_def
      GetCurrentProvider_def disconnectProviderSignals_def stop_current_def stop_def
      forwarded_def GetLastProvider_def or_default_def
      split: option.splits list.splits)

text \<open>
  C7.  After \<open>initialize\<close> on a new coordinator, whatever the configuration, the
  coordinator holds waveform models for the identifiers 0 to 12 and parameter models for
  the identifiers 0 to 17, while the catalog has the waveform kinds 0 to 8 and the
  parameter kinds 0 to 14: \<open>GetWaveformModel 9\<close> and \<open>GetParameterModel 15\<close> return a
  model.
\<close>

theorem C7_models_outside_the_catalog:
  "(let (ok, dm, cm', sigs) = initialize now r new_DataManager cm in
     ok
     \<and> map fst (dm_waveform_models dm) = [0, 1, 2, 3, 4, 5, 6, 7, 8, 9, 10, 11, 12]
     \<and> map fst (dm_parameter_models dm) =
         [0, 1, 2, 3, 4, 5, 6, 7, 8, 9, 10, 11, 12, 13, 14, 15, 16, 17]
     \<and> waveform_catalog = [0, 1, 2, 3, 4, 5, 6, 7, 8]
     \<and> parameter_catalog = [0, 1, 2, 3, 4, 5, 6, 7, 8, 9, 10, 11, 12, 13, 14]
     \<and> GetWaveformModel 9 dm \<noteq> None \<and> GetParameterModel 15 dm \<noteq> None)"
proof -
  let ?dm = "fst (snd (initialize now r new_DataManager cm))"
  have ok: "fst (initialize now r new_DataManager cm)"
    by (simp add: initialize_def Let_def split_def)
  have w: "GetWaveformModel 9 ?dm \<noteq> None"
    unfolding GetWaveformModel_def map_of_eq_None_iff
    using initialize_models(1) [of now r cm] by (simp flip: set_map)
  have q: "GetParameterModel 15 ?dm \<noteq> None"
    unfolding GetParameterModel_def map_of_eq_None_iff
    using initialize_models(2) [of now r cm] by (simp flip: set_map)
  show ?thesis
    using ok w q initialize_models [of now r cm]
    by (simp add: split_def waveform_catalog_def parameter_catalog_def WaveformType_defs
        ParameterType_defs)
qed

end
